theory Spec2Isabelle
  imports Main
begin

section \<open>Python values used by the model\<close>

text \<open>
  Python strings are modelled as lists of code points below 256 (the Latin-1 range), which
  covers every domain name, command and message the program builds. Values read from JSON
  files are modelled by the datatype \<open>json\<close> (numbers are restricted to integers).
\<close>

datatype py_error = AttributeError | KeyError

datatype json =
    JNull
  | JBool bool
  | JNum int
  | JStr string
  | JArr "json list"
  | JObj "(string \<times> json) list"

text \<open>Truth value of a Python object, as tested by \<^verbatim>\<open>if x:\<close> and \<^verbatim>\<open>not x\<close>.\<close>

fun truthy :: "json \<Rightarrow> bool" where
  "truthy JNull = False"
| "truthy (JBool b) = b"
| "truthy (JNum n) = (n \<noteq> 0)"
| "truthy (JStr s) = (s \<noteq> [])"
| "truthy (JArr xs) = (xs \<noteq> [])"
| "truthy (JObj kvs) = (kvs \<noteq> [])"

text \<open>
  \<^verbatim>\<open>d.get(key, default)\<close>: only a dict has the method, any other value raises
  AttributeError. The association list of a \<open>JObj\<close> holds each key once.
\<close>

definition dict_get :: "json \<Rightarrow> string \<Rightarrow> json \<Rightarrow> py_error + json" where
  "dict_get d key dflt =
     (case d of
        JObj kvs \<Rightarrow> Inr (case map_of kvs key of None \<Rightarrow> dflt | Some v \<Rightarrow> v)
      | _ \<Rightarrow> Inl AttributeError)"

text \<open>\<^verbatim>\<open>d[key]\<close> on a dict: KeyError when the key is missing.\<close>

definition dict_index :: "(string \<times> json) list \<Rightarrow> string \<Rightarrow> py_error + json" where
  "dict_index kvs key = (case map_of kvs key of None \<Rightarrow> Inl KeyError | Some v \<Rightarrow> Inr v)"

subsection \<open>String methods\<close>

text \<open>\<^verbatim>\<open>str.isspace\<close> on one code point below 256.\<close>

definition py_isspace :: "char \<Rightarrow> bool" where
  "py_isspace c =
     (c \<in> set [CHR 0x09, CHR 0x0A, CHR 0x0B, CHR 0x0C, CHR 0x0D, CHR 0x1C, CHR 0x1D,
               CHR 0x1E, CHR 0x1F, CHR 0x20, CHR 0x85, CHR 0xA0])"

text \<open>\<^verbatim>\<open>s.strip()\<close>: leading and trailing whitespace removed.\<close>

definition py_strip :: "string \<Rightarrow> string" where
  "py_strip s = rev (dropWhile py_isspace (rev (dropWhile py_isspace s)))"

text \<open>\<^verbatim>\<open>s.lower()\<close>: A-Z and the upper-case Latin-1 letters move up by 32.\<close>

definition py_lower_char :: "char \<Rightarrow> char" where
  "py_lower_char c =
     (let n = (of_char c :: nat)
      in if (65 \<le> n \<and> n \<le> 90) \<or> (192 \<le> n \<and> n \<le> 222 \<and> n \<noteq> 215)
         then char_of (n + 32) else c)"

definition py_lower :: "string \<Rightarrow> string" where
  "py_lower s = map py_lower_char s"

text \<open>
  \<^verbatim>\<open>s.replace(old, new)\<close> for a non-empty \<open>old\<close>: the occurrences are found from
  the left and do not overlap. The counter is the number of characters of the current
  occurrence that are still to be skipped.
\<close>

fun replace_from :: "string \<Rightarrow> string \<Rightarrow> nat \<Rightarrow> string \<Rightarrow> string" where
  "replace_from old new k [] = []"
| "replace_from old new (Suc k) (c # cs) = replace_from old new k cs"
| "replace_from old new 0 (c # cs) =
     (if take (length old) (c # cs) = old
      then new @ replace_from old new (length old - 1) cs
      else c # replace_from old new 0 cs)"

definition py_replace :: "string \<Rightarrow> string \<Rightarrow> string \<Rightarrow> string" where
  "py_replace old new s =
     (if old = [] then new @ concat (map (\<lambda>c. c # new) s) else replace_from old new 0 s)"

text \<open>\<^verbatim>\<open>sub in s\<close> for strings.\<close>

fun py_in :: "string \<Rightarrow> string \<Rightarrow> bool" where
  "py_in sub [] = (sub = [])"
| "py_in sub (c # cs) = (take (length sub) (c # cs) = sub \<or> py_in sub cs)"

text \<open>\<^verbatim>\<open>sep.join(xs)\<close>.\<close>

fun py_join :: "string \<Rightarrow> string list \<Rightarrow> string" where
  "py_join sep [] = []"
| "py_join sep [x] = x"
| "py_join sep (x # y # ys) = x @ sep @ py_join sep (y # ys)"

text \<open>\<^verbatim>\<open>str(n)\<close> for a natural number and for an integer.\<close>

fun str_nat :: "nat \<Rightarrow> string" where
  "str_nat n =
     (if n < 10 then [''0123456789'' ! n]
      else str_nat (n div 10) @ [''0123456789'' ! (n mod 10)])"

definition str_int :: "int \<Rightarrow> string" where
  "str_int i = (if i < 0 then CHR ''-'' # str_nat (nat (- i)) else str_nat (nat i))"

section \<open>global\_blocking.py: GlobalBlockingManager\<close>

text \<open>
  One entry of \<^verbatim>\<open>self.blocked_domains\<close>, with the keys \<^verbatim>\<open>add_blocked_domain\<close>
  writes.
\<close>

record block_entry =
  domain :: string
  reason :: string
  created_by :: string
  created_at :: string
  applied_devices :: "string list"
  status :: string

text \<open>
  The manager: the list in memory and the content of \<^verbatim>\<open>config_file\<close> on disk, which
  \<^verbatim>\<open>save_blocked_domains\<close> overwrites when it succeeds.
\<close>

record manager =
  blocked_domains :: "block_entry list"
  stored_domains :: "block_entry list"

text \<open>A device returned by the registry endpoint; \<open>currentIp\<close> is \<open>None\<close> when the key is
  missing or null.\<close>

record device =
  macAddress :: string
  currentIp :: "string option"

datatype api_reply = ApiRaises | ApiStatus nat "device list"

datatype exec_reply = ExecRaises | ExecStderr string

text \<open>What the program does to the router through paramiko, in order.\<close>

datatype ssh_event =
    SshConnect json json json json
  | SshExec string
  | SshClose

text \<open>
  Everything outside the process that one call observes: whether writing the block list
  succeeds, the content of \<^verbatim>\<open>router_config.json\<close> (\<open>None\<close> when the file does not exist
  or cannot be read as JSON), the reply of the registry endpoint, whether
  \<^verbatim>\<open>ssh.connect\<close> succeeds for given host, user, password and port, what
  \<^verbatim>\<open>ssh.exec_command\<close> followed by reading stderr yields for a command, and the clock.
\<close>

record env =
  save_ok :: bool
  router_file :: "json option"
  registry_reply :: api_reply
  ssh_connect_ok :: "json \<Rightarrow> json \<Rightarrow> json \<Rightarrow> json \<Rightarrow> bool"
  ssh_exec :: "string \<Rightarrow> exec_reply"
  now_iso :: string

definition save_blocked_domains :: "env \<Rightarrow> manager \<Rightarrow> bool \<times> manager" where
  "save_blocked_domains e m =
     (if save_ok e then (True, m\<lparr>stored_domains := blocked_domains m\<rparr>) else (False, m))"

definition load_router_config :: "env \<Rightarrow> json option" where
  "load_router_config e =
     (case router_file e of
        None \<Rightarrow> None
      | Some config \<Rightarrow>
          (case dict_get config ''connection_status'' (JObj []) of
             Inl _ \<Rightarrow> None
           | Inr cs \<Rightarrow>
               (case dict_get cs ''success'' (JBool False) of
                  Inl _ \<Rightarrow> None
                | Inr s \<Rightarrow> if truthy s then Some config else None)))"

definition get_discovered_devices :: "env \<Rightarrow> device list" where
  "get_discovered_devices e =
     (case registry_reply e of
        ApiRaises \<Rightarrow> []
      | ApiStatus code body \<Rightarrow> if code = 200 then body else [])"

text \<open>The normalisation of \<^verbatim>\<open>add_blocked_domain\<close> and the one of
  \<^verbatim>\<open>remove_blocked_domain\<close>.\<close>

definition clean_domain_add :: "string \<Rightarrow> string" where
  "clean_domain_add d =
     py_replace ''www.'' ''''
       (py_replace ''https://'' '''' (py_replace ''http://'' '''' (py_lower (py_strip d))))"

definition clean_domain_remove :: "string \<Rightarrow> string" where
  "clean_domain_remove d = py_lower (py_strip d)"

text \<open>
  The \<^verbatim>\<open>for device in devices\<close> loop of \<^verbatim>\<open>apply_domain_block\<close>. The result is
  \<open>None\<close> when \<^verbatim>\<open>exec_command\<close> raised, else the count; the events are those issued.
  The loop of \<^verbatim>\<open>remove_domain_block\<close> does not read stderr: it counts every command
  that was issued without raising.
\<close>

definition block_command :: "string \<Rightarrow> string \<Rightarrow> string" where
  "block_command device_ip d =
     ''iptables -A FORWARD -s '' @ device_ip @ '' -m string --string '' @ [CHR 0x27] @ d
       @ [CHR 0x27] @ '' --algo bm -j REJECT''"

definition unblock_command :: "string \<Rightarrow> string \<Rightarrow> string" where
  "unblock_command device_ip d =
     ''iptables -D FORWARD -s '' @ device_ip @ '' -m string --string '' @ [CHR 0x27] @ d
       @ [CHR 0x27] @ '' --algo bm -j REJECT''"

fun apply_loop :: "env \<Rightarrow> string \<Rightarrow> device list \<Rightarrow> nat \<Rightarrow> ssh_event list
    \<Rightarrow> nat option \<times> ssh_event list" where
  "apply_loop e d [] applied_count tr = (Some applied_count, tr)"
| "apply_loop e d (dev # devs) applied_count tr =
     (case currentIp dev of
        None \<Rightarrow> apply_loop e d devs applied_count tr
      | Some device_ip \<Rightarrow>
          if device_ip = [] then apply_loop e d devs applied_count tr
          else
            (case ssh_exec e (block_command device_ip d) of
               ExecRaises \<Rightarrow> (None, tr @ [SshExec (block_command device_ip d)])
             | ExecStderr err \<Rightarrow>
                 apply_loop e d devs
                   (if py_strip err = [] then applied_count + 1 else applied_count)
                   (tr @ [SshExec (block_command device_ip d)])))"

fun remove_loop :: "env \<Rightarrow> string \<Rightarrow> device list \<Rightarrow> nat \<Rightarrow> ssh_event list
    \<Rightarrow> nat option \<times> ssh_event list" where
  "remove_loop e d [] removed_count tr = (Some removed_count, tr)"
| "remove_loop e d (dev # devs) removed_count tr =
     (case currentIp dev of
        None \<Rightarrow> remove_loop e d devs removed_count tr
      | Some device_ip \<Rightarrow>
          if device_ip = [] then remove_loop e d devs removed_count tr
          else
            (case ssh_exec e (unblock_command device_ip d) of
               ExecRaises \<Rightarrow> (None, tr @ [SshExec (unblock_command device_ip d)])
             | ExecStderr err \<Rightarrow>
                 remove_loop e d devs (removed_count + 1)
                   (tr @ [SshExec (unblock_command device_ip d)])))"

text \<open>
  The real-SSH part shared by \<^verbatim>\<open>apply_domain_block\<close> and
  \<^verbatim>\<open>remove_domain_block\<close>: the whole of it is inside \<^verbatim>\<open>try\<close>, and every
  exception gives \<open>(False, 0)\<close>.
\<close>

definition over_ssh ::
  "(env \<Rightarrow> string \<Rightarrow> device list \<Rightarrow> nat \<Rightarrow> ssh_event list \<Rightarrow> nat option \<times> ssh_event list)
    \<Rightarrow> env \<Rightarrow> json \<Rightarrow> device list \<Rightarrow> string \<Rightarrow> (bool \<times> nat) \<times> ssh_event list" where
  "over_ssh loop e router_config devices d =
     (case router_config of
        JObj kvs \<Rightarrow>
          (case dict_index kvs ''router_ip'' of
             Inl _ \<Rightarrow> ((False, 0), [])
           | Inr host \<Rightarrow>
          (case dict_index kvs ''username'' of
             Inl _ \<Rightarrow> ((False, 0), [])
           | Inr user \<Rightarrow>
          (case dict_index kvs ''password'' of
             Inl _ \<Rightarrow> ((False, 0), [])
           | Inr pw \<Rightarrow>
               (let port = (case map_of kvs ''port'' of None \<Rightarrow> JNum 22 | Some p \<Rightarrow> p)
                in if \<not> ssh_connect_ok e host user pw port
                   then ((False, 0), [SshConnect host user pw port])
                   else
                     (case loop e d devices 0 [SshConnect host user pw port] of
                        (None, tr) \<Rightarrow> ((False, 0), tr)
                      | (Some n, tr) \<Rightarrow> ((True, n), tr @ [SshClose]))))))
      | _ \<Rightarrow> ((False, 0), []))"

definition apply_domain_block :: "env \<Rightarrow> string \<Rightarrow> (bool \<times> nat) \<times> ssh_event list" where
  "apply_domain_block e d =
     (let router_config = load_router_config e;
          devices = get_discovered_devices e
      in case router_config of
           None \<Rightarrow> ((True, length devices), [])
         | Some cfg \<Rightarrow>
             if \<not> truthy cfg then ((True, length devices), [])
             else over_ssh apply_loop e cfg devices d)"

definition remove_domain_block :: "env \<Rightarrow> string \<Rightarrow> (bool \<times> nat) \<times> ssh_event list" where
  "remove_domain_block e d =
     (let router_config = load_router_config e;
          devices = get_discovered_devices e
      in case router_config of
           None \<Rightarrow> ((True, length devices), [])
         | Some cfg \<Rightarrow>
             if \<not> truthy cfg then ((True, length devices), [])
             else over_ssh remove_loop e cfg devices d)"

text \<open>
  \<^verbatim>\<open>add_blocked_domain\<close> and \<^verbatim>\<open>remove_blocked_domain\<close> return the pair of the
  source, the manager after the call and the router events of the call. Every entry of the
  list has a \<^verbatim>\<open>domain\<close> and the helpers catch their own exceptions, so no statement of
  the two \<^verbatim>\<open>try\<close> bodies raises and the outer \<^verbatim>\<open>except\<close> clauses have no branch here.
\<close>

definition add_blocked_domain ::
  "env \<Rightarrow> string \<Rightarrow> string \<Rightarrow> string \<Rightarrow> manager \<Rightarrow> (bool \<times> string) \<times> manager \<times> ssh_event list" where
  "add_blocked_domain e d rsn actor m =
     (let c = clean_domain_add d
      in if list_ex (\<lambda>x. domain x = c) (blocked_domains m)
         then ((False, ''Domain '' @ c @ '' is already blocked''), m, [])
         else
           (let block_entry = \<lparr>domain = c, reason = rsn, created_by = actor,
                  created_at = now_iso e, applied_devices = [], status = ''active''\<rparr>;
                m1 = m\<lparr>blocked_domains := blocked_domains m @ [block_entry]\<rparr>
            in case save_blocked_domains e m1 of
                 (True, m2) \<Rightarrow>
                   (case apply_domain_block e c of
                      ((True, applied_count), tr) \<Rightarrow>
                        ((True, ''Domain '' @ c @ '' blocked successfully on ''
                             @ str_nat applied_count @ '' devices''), m2, tr)
                    | ((False, _), tr) \<Rightarrow>
                        ((True, ''Domain '' @ c
                             @ '' added to block list (rules application pending)''), m2, tr))
               | (False, m2) \<Rightarrow> ((False, ''Failed to save blocked domains''), m2, [])))"

definition remove_blocked_domain ::
  "env \<Rightarrow> string \<Rightarrow> string \<Rightarrow> manager \<Rightarrow> (bool \<times> string) \<times> manager \<times> ssh_event list" where
  "remove_blocked_domain e d actor m =
     (let c = clean_domain_remove d;
          original_count = length (blocked_domains m);
          m1 = m\<lparr>blocked_domains := filter (\<lambda>x. domain x \<noteq> c) (blocked_domains m)\<rparr>
      in if length (blocked_domains m1) = original_count
         then ((False, ''Domain '' @ c @ '' not found in block list''), m1, [])
         else
           (case save_blocked_domains e m1 of
              (True, m2) \<Rightarrow>
                (case remove_domain_block e c of
                   ((True, removed_count), tr) \<Rightarrow>
                     ((True, ''Domain '' @ c @ '' unblocked successfully on ''
                          @ str_nat removed_count @ '' devices''), m2, tr)
                 | ((False, _), tr) \<Rightarrow>
                     ((True, ''Domain '' @ c
                          @ '' removed from block list (rules removal pending)''), m2, tr))
            | (False, m2) \<Rightarrow> ((False, ''Failed to save changes''), m2, [])))"

text \<open>
  \<^verbatim>\<open>reapply_all_rules\<close>. The world may change between two applications, so the
  environment of the \<open>k\<close>-th call of \<^verbatim>\<open>apply_domain_block\<close> is \<open>world k\<close>. The loop
  carries \<^verbatim>\<open>total_applied\<close>, \<^verbatim>\<open>failed_domains\<close> and the log of the calls made: the
  domain passed and the router events of that call.
\<close>

fun reapply_loop :: "(nat \<Rightarrow> env) \<Rightarrow> block_entry list \<Rightarrow> nat \<Rightarrow> nat \<Rightarrow> string list
    \<Rightarrow> (string \<times> ssh_event list) list \<Rightarrow> nat \<times> string list \<times> (string \<times> ssh_event list) list" where
  "reapply_loop world [] k total_applied failed_domains calls =
     (total_applied, failed_domains, calls)"
| "reapply_loop world (domain_entry # rest) k total_applied failed_domains calls =
     (if status domain_entry = ''active''
      then
        (case apply_domain_block (world k) (domain domain_entry) of
           ((True, n), tr) \<Rightarrow>
             reapply_loop world rest (k + 1) (total_applied + n) failed_domains
               (calls @ [(domain domain_entry, tr)])
         | ((False, n), tr) \<Rightarrow>
             reapply_loop world rest (k + 1) total_applied
               (failed_domains @ [domain domain_entry])
               (calls @ [(domain domain_entry, tr)]))
      else reapply_loop world rest k total_applied failed_domains calls)"

definition reapply_all_rules ::
  "(nat \<Rightarrow> env) \<Rightarrow> manager \<Rightarrow> (bool \<times> string) \<times> (string \<times> ssh_event list) list" where
  "reapply_all_rules world m =
     (case reapply_loop world (blocked_domains m) 0 0 [] [] of
        (total_applied, failed_domains, calls) \<Rightarrow>
          if failed_domains \<noteq> []
          then ((False, ''Applied '' @ str_nat total_applied @ '' rules, failed: ''
                   @ py_join '', '' failed_domains), calls)
          else ((True, ''Successfully applied '' @ str_nat total_applied
                   @ '' blocking rules''), calls))"

text \<open>
  The calls \<^verbatim>\<open>reapply_all_rules\<close> has to make: the entries with status
  \<^verbatim>\<open>'active'\<close> in list order, numbered from 0, and for each of them what
  \<^verbatim>\<open>apply_domain_block\<close> returns in the world of that call.
\<close>

definition active_calls :: "manager \<Rightarrow> (nat \<times> block_entry) list" where
  "active_calls m = enumerate 0 (filter (\<lambda>x. status x = ''active'') (blocked_domains m))"

definition call_ok :: "(nat \<Rightarrow> env) \<Rightarrow> nat \<times> block_entry \<Rightarrow> bool" where
  "call_ok world p = fst (fst (apply_domain_block (world (fst p)) (domain (snd p))))"

definition call_count :: "(nat \<Rightarrow> env) \<Rightarrow> nat \<times> block_entry \<Rightarrow> nat" where
  "call_count world p = snd (fst (apply_domain_block (world (fst p)) (domain (snd p))))"

definition call_events :: "(nat \<Rightarrow> env) \<Rightarrow> nat \<times> block_entry \<Rightarrow> string \<times> ssh_event list" where
  "call_events world p =
     (domain (snd p), snd (apply_domain_block (world (fst p)) (domain (snd p))))"

subsection \<open>Concrete worlds and block lists\<close>

text \<open>No router profile on disk and a registry endpoint that cannot be reached.\<close>

definition quiet_env :: env where
  "quiet_env = \<lparr>save_ok = True, router_file = None, registry_reply = ApiRaises,
     ssh_connect_ok = (\<lambda>_ _ _ _. False), ssh_exec = (\<lambda>_. ExecRaises),
     now_iso = ''2024-01-01T00:00:00''\<rparr>"

definition two_devices :: "device list" where
  "two_devices =
     [\<lparr>macAddress = ''AA:BB:CC:00:11:22'', currentIp = Some ''192.168.1.50''\<rparr>,
      \<lparr>macAddress = ''AA:BB:CC:00:11:23'', currentIp = None\<rparr>]"

text \<open>A router profile whose last connection test succeeded, in the given mode.\<close>

definition tested_profile :: "string \<Rightarrow> json" where
  "tested_profile mode =
     JObj [(''router_ip'', JStr ''192.168.1.1''), (''username'', JStr ''admin''),
           (''password'', JStr ''secret''), (''mode'', JStr mode),
           (''connection_status'', JObj [(''success'', JBool True)])]"

text \<open>The router refuses every SSH connection.\<close>

definition unreachable_router_env :: env where
  "unreachable_router_env = \<lparr>save_ok = True, router_file = Some (tested_profile ''real''),
     registry_reply = ApiStatus 200 two_devices,
     ssh_connect_ok = (\<lambda>_ _ _ _. False), ssh_exec = (\<lambda>_. ExecRaises),
     now_iso = ''2024-01-01T00:00:00''\<rparr>"

text \<open>A profile in mode \<^verbatim>\<open>simulated\<close> that carries a successful connection test; the
  router accepts connections and commands.\<close>

definition simulated_profile_env :: env where
  "simulated_profile_env = \<lparr>save_ok = True, router_file = Some (tested_profile ''simulated''),
     registry_reply = ApiStatus 200 two_devices,
     ssh_connect_ok = (\<lambda>_ _ _ _. True), ssh_exec = (\<lambda>_. ExecStderr []),
     now_iso = ''2024-01-01T00:00:00''\<rparr>"

text \<open>The router accepts every command except those that mention \<^verbatim>\<open>bad.example\<close>, on
  which the channel breaks.\<close>

definition picky_router_env :: env where
  "picky_router_env = \<lparr>save_ok = True, router_file = Some (tested_profile ''real''),
     registry_reply = ApiStatus 200 two_devices,
     ssh_connect_ok = (\<lambda>_ _ _ _. True),
     ssh_exec = (\<lambda>cmd. if py_in ''bad.example'' cmd then ExecRaises else ExecStderr []),
     now_iso = ''2024-01-01T00:00:00''\<rparr>"

definition entry_of :: "string \<Rightarrow> string \<Rightarrow> block_entry" where
  "entry_of d st = \<lparr>domain = d, reason = ''Global block'', created_by = ''admin'',
      created_at = ''2024-01-01T00:00:00'', applied_devices = [], status = st\<rparr>"

definition empty_manager :: manager where
  "empty_manager = \<lparr>blocked_domains = [], stored_domains = []\<rparr>"

definition one_entry :: manager where
  "one_entry = \<lparr>blocked_domains = [entry_of ''example.com'' ''active''],
     stored_domains = [entry_of ''example.com'' ''active'']\<rparr>"

definition four_entries :: manager where
  "four_entries = \<lparr>blocked_domains =
      [entry_of ''a.example'' ''active'', entry_of ''bad.example'' ''active'',
       entry_of ''old.example'' ''removed'', entry_of ''c.example'' ''active''],
     stored_domains = []\<rparr>"

section \<open>network\_firewall.py: FirewallManager\<close>

text \<open>
  The adapter objects. The concrete adapters hold what their constructors store (a key
  missing from the configuration is \<^verbatim>\<open>None\<close>, here \<open>JNull\<close>; the FortiGate base URL
  is derived from the host and is not kept); the simulated adapter holds its rule list
  (device address, domain, rule name, rule number) and its rule counter.
\<close>

datatype adapter =
    PfSenseFirewall json json json json
  | OpenWrtFirewall json json json
  | FortiGateFirewall json json json
  | SimulatedFirewall "(string \<times> string \<times> string \<times> nat) list" nat

record firewall_manager =
  config :: "(string \<times> json) list"
  firewall :: "adapter option"
  firewall_type :: json

text \<open>\<^verbatim>\<open>self.config.get(key)\<close> and \<^verbatim>\<open>self.config.get(key, default)\<close>.\<close>

definition config_get :: "(string \<times> json) list \<Rightarrow> string \<Rightarrow> json \<Rightarrow> json" where
  "config_get kvs key dflt = (case map_of kvs key of None \<Rightarrow> dflt | Some v \<Rightarrow> v)"

definition fallback_to_simulated :: "firewall_manager \<Rightarrow> firewall_manager" where
  "fallback_to_simulated self =
     self\<lparr>firewall := Some (SimulatedFirewall [] 1), firewall_type := JStr ''simulated''\<rparr>"

text \<open>
  \<^verbatim>\<open>_initialize_firewall\<close>. The constructors of the source only store their arguments;
  \<open>raises t\<close> says whether constructing the adapter of type \<open>t\<close> raises all the same, which
  is the case the \<^verbatim>\<open>except\<close> clause is written for.
\<close>

definition initialize_firewall :: "(string \<Rightarrow> bool) \<Rightarrow> firewall_manager \<Rightarrow> firewall_manager" where
  "initialize_firewall raises self =
     (if firewall_type self = JStr ''pfsense'' then
        (if raises ''pfsense'' then fallback_to_simulated self
         else self\<lparr>firewall := Some (PfSenseFirewall
                  (config_get (config self) ''host'' JNull)
                  (config_get (config self) ''username'' JNull)
                  (config_get (config self) ''password'' JNull)
                  (config_get (config self) ''api_key'' JNull))\<rparr>)
      else if firewall_type self = JStr ''openwrt'' then
        (if raises ''openwrt'' then fallback_to_simulated self
         else self\<lparr>firewall := Some (OpenWrtFirewall
                  (config_get (config self) ''host'' JNull)
                  (config_get (config self) ''username'' JNull)
                  (config_get (config self) ''password'' JNull))\<rparr>)
      else if firewall_type self = JStr ''fortigate'' then
        (if raises ''fortigate'' then fallback_to_simulated self
         else self\<lparr>firewall := Some (FortiGateFirewall
                  (config_get (config self) ''host'' JNull)
                  (config_get (config self) ''api_key'' JNull)
                  (config_get (config self) ''vdom'' (JStr ''root'')))\<rparr>)
      else fallback_to_simulated self)"

text \<open>\<^verbatim>\<open>FirewallManager.__init__\<close>; the argument is \<open>None\<close> or a dict.\<close>

definition FirewallManager :: "(string \<Rightarrow> bool) \<Rightarrow> (string \<times> json) list option \<Rightarrow> firewall_manager" where
  "FirewallManager raises cfg =
     (let c = (case cfg of None \<Rightarrow> [] | Some kvs \<Rightarrow> kvs)
      in initialize_firewall raises
           \<lparr>config = c, firewall = None,
            firewall_type = config_get c ''type'' (JStr ''simulated'')\<rparr>)"

text \<open>
  The four operations of the manager. Each tests \<^verbatim>\<open>self.firewall\<close> and then calls the
  method of the adapter, which is a parameter here: its body talks to a router.
\<close>

definition block_domain ::
  "(adapter \<Rightarrow> string \<Rightarrow> string \<Rightarrow> string \<Rightarrow> bool \<times> string \<times> string option)
    \<Rightarrow> firewall_manager \<Rightarrow> string \<Rightarrow> string \<Rightarrow> string \<Rightarrow> bool \<times> string \<times> string option" where
  "block_domain adapter_block self device_ip d rule_name =
     (case firewall self of
        None \<Rightarrow> (False, ''No firewall configured'', None)
      | Some fw \<Rightarrow> adapter_block fw device_ip d rule_name)"

definition unblock_domain ::
  "(adapter \<Rightarrow> string \<Rightarrow> string \<Rightarrow> string \<Rightarrow> bool \<times> string)
    \<Rightarrow> firewall_manager \<Rightarrow> string \<Rightarrow> string \<Rightarrow> string \<Rightarrow> bool \<times> string" where
  "unblock_domain adapter_unblock self device_ip d rule_name =
     (case firewall self of
        None \<Rightarrow> (False, ''No firewall configured'')
      | Some fw \<Rightarrow> adapter_unblock fw device_ip d rule_name)"

definition list_rules :: "(adapter \<Rightarrow> 'r list) \<Rightarrow> firewall_manager \<Rightarrow> 'r list" where
  "list_rules adapter_rules self =
     (case firewall self of None \<Rightarrow> [] | Some fw \<Rightarrow> adapter_rules fw)"

definition test_connection :: "(adapter \<Rightarrow> bool \<times> string) \<Rightarrow> firewall_manager \<Rightarrow> bool \<times> string" where
  "test_connection adapter_test self =
     (case firewall self of
        None \<Rightarrow> (False, ''No firewall configured'')
      | Some fw \<Rightarrow> adapter_test fw)"

section \<open>router\_config\_manager.py: RouterConfigManager.test\_ssh\_connection\<close>

datatype exn =
    AuthenticationException
  | SSHException string
  | SocketTimeout
  | OtherException string

text \<open>
  What the probe can raise: \<^verbatim>\<open>socket.timeout\<close>, or another exception of the socket
  layer with its text (the host name does not resolve, the port is out of range). The
  \<^verbatim>\<open>except\<close> clauses see the first as \<^verbatim>\<open>socket.timeout\<close> and the second as
  \<^verbatim>\<open>Exception\<close>.
\<close>

datatype socket_exn = SocketTimedOut | SocketError string

definition exn_of_socket :: "socket_exn \<Rightarrow> exn" where
  "exn_of_socket x =
     (case x of SocketTimedOut \<Rightarrow> SocketTimeout | SocketError msg \<Rightarrow> OtherException msg)"

datatype probe_reply = ProbeRaises socket_exn | ProbeResult int

datatype connect_reply = ConnectRaises exn | Connected

text \<open>A command either raises, or yields what was read from stdout (decoded) and from stderr.\<close>

datatype command_reply = CommandRaises exn | CommandOutput string string

text \<open>
  The network as one call of \<^verbatim>\<open>test_ssh_connection\<close> sees it: the TCP probe for host,
  port and timeout (\<^verbatim>\<open>connect_ex\<close> returns a code; creating the socket or resolving the
  host may raise), the SSH login for host, user, password, port and timeout, the commands,
  the clock and the time the test took in microseconds.
\<close>

record router_world =
  tcp_connect_ex :: "string \<Rightarrow> int \<Rightarrow> int \<Rightarrow> probe_reply"
  ssh_login :: "string \<Rightarrow> string \<Rightarrow> string \<Rightarrow> int \<Rightarrow> int \<Rightarrow> connect_reply"
  exec_command :: "string \<Rightarrow> command_reply"
  tested_at_now :: string
  elapsed_us :: nat

datatype router_event =
    TcpProbe string int
  | SshLogin string string string int
  | SshCommand string
  | SshShutdown

record capabilities =
  iptables :: bool
  pfctl :: bool
  dnsmasq :: bool
  web_filtering :: bool
  api_support :: bool

record router_info =
  system_info :: string
  router_type :: string
  router_capabilities :: capabilities

record connection_info =
  tested_at :: string
  router_ip :: string
  ssh_port :: int
  response_time :: "nat option"
  router_details :: "router_info option"

definition detection_commands :: "(string \<times> string) list" where
  "detection_commands =
     [(''pfSense'', ''cat /etc/version''),
      (''OpenWrt'', ''cat /etc/openwrt_release''),
      (''DD-WRT'', ''nvram get os_name''),
      (''Ubiquiti EdgeOS'', ''cat /opt/vyatta/etc/version''),
      (''MikroTik'', ''/system resource print''),
      (''Cisco IOS'', ''show version''),
      (''Linux'', ''cat /proc/version'')]"

text \<open>The \<^verbatim>\<open>if\<close>/\<^verbatim>\<open>elif\<close> chain inside the loop of \<^verbatim>\<open>detect_router_type\<close>.\<close>

definition signature_match :: "string \<Rightarrow> string \<Rightarrow> string option" where
  "signature_match rt output =
     (if rt = ''pfSense'' \<and> py_in ''pfsense'' (py_lower output) then Some ''pfSense''
      else if rt = ''OpenWrt'' \<and> py_in ''openwrt'' (py_lower output) then Some ''OpenWrt''
      else if rt = ''DD-WRT'' \<and> py_in ''dd-wrt'' (py_lower output) then Some ''DD-WRT''
      else if rt = ''Ubiquiti EdgeOS'' \<and> py_in ''vyatta'' (py_lower output) then Some ''EdgeOS''
      else if rt = ''MikroTik'' \<and> py_in ''mikrotik'' (py_lower output) then Some ''MikroTik''
      else if rt = ''Cisco IOS'' \<and> py_in ''cisco'' (py_lower output) then Some ''Cisco IOS''
      else if rt = ''Linux'' \<and> py_in ''linux'' (py_lower output)
        then Some ''Linux-based Router''
      else None)"

fun detect_loop :: "router_world \<Rightarrow> (string \<times> string) list \<Rightarrow> router_event list
    \<Rightarrow> string \<times> router_event list" where
  "detect_loop w [] tr = (''Generic Router'', tr)"
| "detect_loop w ((rt, command) # rest) tr =
     (case exec_command w command of
        CommandRaises _ \<Rightarrow> detect_loop w rest (tr @ [SshCommand command])
      | CommandOutput out err \<Rightarrow>
          if py_strip out \<noteq> [] \<and> err = [] then
            (case signature_match rt out of
               Some found \<Rightarrow> (found, tr @ [SshCommand command])
             | None \<Rightarrow> detect_loop w rest (tr @ [SshCommand command]))
          else detect_loop w rest (tr @ [SshCommand command]))"

definition detect_router_type :: "router_world \<Rightarrow> router_event list \<Rightarrow> string \<times> router_event list" where
  "detect_router_type w tr = detect_loop w detection_commands tr"

text \<open>One capability test of \<^verbatim>\<open>check_router_capabilities\<close>.\<close>

definition capability_test :: "router_world \<Rightarrow> string \<Rightarrow> bool" where
  "capability_test w command =
     (case exec_command w command of
        CommandRaises _ \<Rightarrow> False
      | CommandOutput out err \<Rightarrow> py_strip out \<noteq> [] \<and> err = [])"

definition check_router_capabilities ::
  "router_world \<Rightarrow> string \<Rightarrow> router_event list \<Rightarrow> capabilities \<times> router_event list" where
  "check_router_capabilities w rt tr =
     (let c = \<lparr>iptables = capability_test w ''which iptables'',
               pfctl = capability_test w ''which pfctl'',
               dnsmasq = capability_test w ''which dnsmasq'',
               web_filtering = False, api_support = False\<rparr>;
          tr' = tr @ [SshCommand ''which iptables'', SshCommand ''which pfctl'',
                      SshCommand ''which dnsmasq'']
      in if rt = ''pfSense'' then (c\<lparr>web_filtering := True, api_support := True\<rparr>, tr')
         else if rt = ''OpenWrt'' then (c\<lparr>web_filtering := True\<rparr>, tr')
         else if rt \<in> set [''DD-WRT'', ''Linux-based Router'']
           then (c\<lparr>web_filtering := iptables c\<rparr>, tr')
         else (c, tr'))"

text \<open>The \<^verbatim>\<open>except\<close> clauses of \<^verbatim>\<open>test_ssh_connection\<close>, in their order.\<close>

definition failure_message :: "exn \<Rightarrow> int \<Rightarrow> string" where
  "failure_message x port =
     (case x of
        AuthenticationException \<Rightarrow> ''Authentication failed - Invalid username or password''
      | SSHException msg \<Rightarrow> ''SSH connection failed: '' @ msg
      | SocketTimeout \<Rightarrow>
          ''Connection timeout - Router not responding on port '' @ str_int port
      | OtherException msg \<Rightarrow> ''Connection failed: '' @ msg)"

definition system_command :: string where
  "system_command = ''uname -a || cat /etc/os-release || echo '' @ [CHR 0x27]
     @ ''Unknown system'' @ [CHR 0x27]"

definition test_ssh_connection ::
  "router_world \<Rightarrow> string \<Rightarrow> string \<Rightarrow> string \<Rightarrow> int \<Rightarrow> int
    \<Rightarrow> (bool \<times> string \<times> connection_info) \<times> router_event list" where
  "test_ssh_connection w host username password port timeout =
     (let info = \<lparr>tested_at = tested_at_now w, router_ip = host, ssh_port = port,
                  response_time = None, router_details = None\<rparr>
      in case tcp_connect_ex w host port timeout of
           ProbeRaises x \<Rightarrow>
             ((False, failure_message (exn_of_socket x) port, info), [TcpProbe host port])
         | ProbeResult result \<Rightarrow>
             if result \<noteq> 0 then
               ((False, ''Cannot reach '' @ host @ '':'' @ str_int port
                   @ '' - Network unreachable'', info), [TcpProbe host port])
             else
               (case ssh_login w host username password port timeout of
                  ConnectRaises x \<Rightarrow>
                    ((False, failure_message x port, info),
                     [TcpProbe host port, SshLogin host username password port])
                | Connected \<Rightarrow>
                    (case exec_command w system_command of
                       CommandRaises x \<Rightarrow>
                         ((False, failure_message x port, info),
                          [TcpProbe host port, SshLogin host username password port,
                           SshCommand system_command])
                     | CommandOutput out err \<Rightarrow>
                         (case detect_router_type w
                                 [TcpProbe host port, SshLogin host username password port,
                                  SshCommand system_command] of
                            (rt, tr) \<Rightarrow>
                              (case check_router_capabilities w rt tr of
                                 (caps, tr') \<Rightarrow>
                                   ((True, ''Successfully connected to '' @ rt @ '' router'',
                                     info\<lparr>response_time := Some (elapsed_us w),
                                          router_details := Some
                                            \<lparr>system_info = py_strip out, router_type = rt,
                                             router_capabilities = caps\<rparr>\<rparr>),
                                    tr' @ [SshShutdown]))))))"

subsection \<open>Concrete routers\<close>

definition dead_host :: router_world where
  "dead_host = \<lparr>tcp_connect_ex = (\<lambda>_ _ _. ProbeResult 111),
     ssh_login = (\<lambda>_ _ _ _ _. ConnectRaises AuthenticationException),
     exec_command = (\<lambda>_. CommandRaises (OtherException ''closed'')),
     tested_at_now = ''2024-01-01T00:00:00'', elapsed_us = 0\<rparr>"

text \<open>A host name that does not resolve: \<^verbatim>\<open>connect_ex\<close> raises.\<close>

definition unresolvable_host :: router_world where
  "unresolvable_host =
     \<lparr>tcp_connect_ex = (\<lambda>_ _ _. ProbeRaises (SocketError ''Name or service not known'')),
      ssh_login = (\<lambda>_ _ _ _ _. Connected),
      exec_command = (\<lambda>_. CommandOutput ''Linux'' []),
      tested_at_now = ''2024-01-01T00:00:00'', elapsed_us = 0\<rparr>"

definition all_raise :: "string \<Rightarrow> bool" where
  "all_raise t = True"

definition none_raise :: "string \<Rightarrow> bool" where
  "none_raise t = False"

definition adapter_name :: "adapter \<Rightarrow> bool \<times> string" where
  "adapter_name fw =
     (case fw of
        PfSenseFirewall _ _ _ _ \<Rightarrow> (True, ''pfsense'')
      | OpenWrtFirewall _ _ _ \<Rightarrow> (True, ''openwrt'')
      | FortiGateFirewall _ _ _ \<Rightarrow> (True, ''fortigate'')
      | SimulatedFirewall _ _ \<Rightarrow> (True, ''simulated''))"

section \<open>network\_discovery.py: NetworkDiscovery\<close>

text \<open>One observation of a scan: the dictionary \<^verbatim>\<open>device_info\<close> of the scan methods.\<close>

record observation =
  ip :: string
  mac :: "string option"
  hostname :: "string option"
  vendor :: "string option"
  os :: "string option"
  ports :: "string list"

subsection \<open>classify\_device\<close>

definition device_patterns :: "(string \<times> string list) list" where
  "device_patterns =
     [(''printer'', [''printer'', ''canon'', ''hp'', ''epson'', ''brother'', ''xerox'',
                    ''lexmark'']),
      (''router'', [''router'', ''gateway'', ''linksys'', ''netgear'', ''asus'', ''tp-link'',
                   ''dlink'']),
      (''camera'', [''camera'', ''cam'', ''hikvision'', ''dahua'', ''axis'', ''foscam'']),
      (''iot'', [''sensor'', ''thermostat'', ''smart'', ''alexa'', ''google'', ''nest'']),
      (''server'', [''server'', ''nas'', ''synology'', ''qnap'', ''freenas'']),
      (''mobile'', [''android'', ''iphone'', ''samsung'', ''pixel'', ''oneplus'']),
      (''laptop'', [''laptop'', ''macbook'', ''thinkpad'', ''latitude'', ''inspiron'']),
      (''desktop'', [''desktop'', ''optiplex'', ''precision'', ''workstation''])]"

text \<open>\<^verbatim>\<open>s.title()\<close> for an ASCII string (it is applied to the keys above): a letter is
  upper-cased when the character before it is not a letter, and lower-cased otherwise.\<close>

definition ascii_letter :: "char \<Rightarrow> bool" where
  "ascii_letter c =
     (let n = (of_char c :: nat) in (65 \<le> n \<and> n \<le> 90) \<or> (97 \<le> n \<and> n \<le> 122))"

definition ascii_upper_char :: "char \<Rightarrow> char" where
  "ascii_upper_char c =
     (let n = (of_char c :: nat) in if 97 \<le> n \<and> n \<le> 122 then char_of (n - 32) else c)"

fun title_from :: "bool \<Rightarrow> string \<Rightarrow> string" where
  "title_from after_letter [] = []"
| "title_from after_letter (c # cs) =
     (if ascii_letter c
      then (if after_letter then py_lower_char c else ascii_upper_char c) # title_from True cs
      else c # title_from False cs)"

definition py_title :: "string \<Rightarrow> string" where
  "py_title s = title_from False s"

text \<open>\<^verbatim>\<open>int(s)\<close> in base 10: surrounding whitespace, one optional sign, digits with single
  underscores between them. \<open>None\<close> is ValueError. The whitespace \<^verbatim>\<open>int\<close> skips is
  the ASCII whitespace and the whitespace code points above 127; the separators 0x1C to
  0x1F, which \<^verbatim>\<open>str.strip\<close> removes, make it fail.\<close>

definition int_space :: "char \<Rightarrow> bool" where
  "int_space c =
     (c \<in> set [CHR 0x09, CHR 0x0A, CHR 0x0B, CHR 0x0C, CHR 0x0D, CHR 0x20, CHR 0x85,
               CHR 0xA0])"

definition is_digit :: "char \<Rightarrow> bool" where
  "is_digit c = (c \<in> set ''0123456789'')"

fun digits_ok :: "bool \<Rightarrow> string \<Rightarrow> bool" where
  "digits_ok after_digit [] = after_digit"
| "digits_ok after_digit (c # cs) =
     (if is_digit c then digits_ok True cs
      else if c = CHR ''_'' \<and> after_digit then digits_ok False cs
      else False)"

definition digits_value :: "string \<Rightarrow> int" where
  "digits_value s =
     foldl (\<lambda>acc c. 10 * acc + (int (of_char c) - 48)) 0 (filter is_digit s)"

definition py_int :: "string \<Rightarrow> int option" where
  "py_int s =
     (let t = rev (dropWhile int_space (rev (dropWhile int_space s)));
          negative = (t \<noteq> [] \<and> hd t = CHR ''-'');
          body = (if t \<noteq> [] \<and> (hd t = CHR ''-'' \<or> hd t = CHR ''+'') then tl t else t)
      in if digits_ok False body
         then Some (if negative then - digits_value body else digits_value body)
         else None)"

text \<open>\<^verbatim>\<open>(x or '')\<close> for an optional string.\<close>

definition or_empty :: "string option \<Rightarrow> string" where
  "or_empty x = (case x of None \<Rightarrow> [] | Some s \<Rightarrow> s)"

definition text_to_analyze :: "observation \<Rightarrow> string" where
  "text_to_analyze device_info =
     py_lower (or_empty (hostname device_info)) @ '' ''
       @ py_lower (py_join '' '' (ports device_info)) @ '' ''
       @ py_lower (or_empty (vendor device_info))"

fun pattern_type :: "string \<Rightarrow> (string \<times> string list) list \<Rightarrow> string option" where
  "pattern_type txt [] = None"
| "pattern_type txt ((device_type, patterns) # rest) =
     (if list_ex (\<lambda>pattern. py_in pattern txt) patterns then Some (py_title device_type)
      else pattern_type txt rest)"

text \<open>The port numbers that parse; a port string that does not is skipped.\<close>

definition port_numbers :: "observation \<Rightarrow> int list" where
  "port_numbers device_info =
     List.map_filter (\<lambda>port_info. py_int (takeWhile (\<lambda>c. c \<noteq> CHR ''/'') port_info))
       (ports device_info)"

definition classify_device :: "observation \<Rightarrow> string" where
  "classify_device device_info =
     (case pattern_type (text_to_analyze device_info) device_patterns of
        Some t \<Rightarrow> t
      | None \<Rightarrow>
          (let ps = port_numbers device_info
           in if List.member ps 80 \<or> List.member ps 443 then
                (if List.member ps 22 then ''Server''
                 else if List.member ps 631 then ''Printer''
                 else ''Web Device'')
              else if List.member ps 22 then ''Linux Server''
              else if List.member ps 3389 then ''Windows Server''
              else if List.member ps 139 \<or> List.member ps 445 then ''Windows Device''
              else if List.member ps 1883 \<or> List.member ps 8883 then ''IoT Device''
              else ''Unknown Device''))"

subsection \<open>The local database\<close>

text \<open>
  A row of \<^verbatim>\<open>discovered_devices\<close> (the columns \<^verbatim>\<open>id\<close>, \<^verbatim>\<open>mac_address\<close>,
  \<^verbatim>\<open>ip_address\<close>, \<^verbatim>\<open>hostname\<close>, \<^verbatim>\<open>vendor\<close>, \<^verbatim>\<open>device_type\<close>, \<^verbatim>\<open>first_seen\<close>,
  \<^verbatim>\<open>last_seen\<close>, \<^verbatim>\<open>ports_open\<close>, \<^verbatim>\<open>os_guess\<close>, \<^verbatim>\<open>status\<close>) and a row of
  \<^verbatim>\<open>scan_history\<close>. A timestamp is a number of seconds; \<open>None\<close> is NULL.
\<close>

record device_row =
  row_id :: nat
  mac_address :: string
  ip_address :: string
  host_name :: "string option"
  vendor_name :: "string option"
  device_type :: string
  first_seen :: nat
  last_seen :: nat
  ports_open :: string
  os_guess :: "string option"
  row_status :: string

record scan_row =
  scan_id :: nat
  scan_time :: nat
  devices_found :: nat
  scan_duration :: "nat option"
  scan_method :: string

text \<open>
  The database: the two tables and the number of writing statements executed so far.
  \<^verbatim>\<open>CURRENT_TIMESTAMP\<close> of the \<open>n\<close>-th writing statement is \<open>clock n\<close>, for a clock given
  as a parameter.
\<close>

record registry =
  discovered_devices :: "device_row list"
  scan_history :: "scan_row list"
  executed :: nat

text \<open>\<^verbatim>\<open>init_local_db\<close> on a new file.\<close>

definition init_local_db :: registry where
  "init_local_db = \<lparr>discovered_devices = [], scan_history = [], executed = 0\<rparr>"

text \<open>One round of the loop of \<^verbatim>\<open>save_to_local_db\<close>.\<close>

definition upsert_device :: "(nat \<Rightarrow> nat) \<Rightarrow> observation \<Rightarrow> registry \<Rightarrow> registry" where
  "upsert_device clock device db =
     (case mac device of
        None \<Rightarrow> db
      | Some m \<Rightarrow>
          if m = [] then db
          else
            (let dt = classify_device device;
                 ports_str = py_join '','' (ports device);
                 now = clock (executed db)
             in if list_ex (\<lambda>r. mac_address r = m) (discovered_devices db) then
                  db\<lparr>discovered_devices :=
                       map (\<lambda>r. if mac_address r = m
                                 then r\<lparr>ip_address := ip device, host_name := hostname device,
                                        vendor_name := vendor device, device_type := dt,
                                        last_seen := now, ports_open := ports_str,
                                        os_guess := os device\<rparr>
                                 else r)
                         (discovered_devices db),
                     executed := executed db + 1\<rparr>
                else
                  db\<lparr>discovered_devices := discovered_devices db @
                       [\<lparr>row_id = length (discovered_devices db) + 1, mac_address = m,
                         ip_address = ip device, host_name = hostname device,
                         vendor_name = vendor device, device_type = dt,
                         first_seen = now, last_seen = now, ports_open = ports_str,
                         os_guess = os device, row_status = ''active''\<rparr>],
                     executed := executed db + 1\<rparr>))"

definition save_to_local_db :: "(nat \<Rightarrow> nat) \<Rightarrow> observation list \<Rightarrow> registry \<Rightarrow> registry" where
  "save_to_local_db clock devices db =
     (let db1 = fold (upsert_device clock) devices db
      in db1\<lparr>scan_history := scan_history db1 @
                [\<lparr>scan_id = length (scan_history db1) + 1, scan_time = clock (executed db1),
                  devices_found = length devices, scan_duration = None,
                  scan_method = ''automated''\<rparr>],
             executed := executed db1 + 1\<rparr>)"

subsection \<open>One scan\<close>

text \<open>
  The machine and the network at one scan: which scanning libraries could be imported,
  and what each scan method finds when it runs.
\<close>

record scan_env =
  NMAP_AVAILABLE :: bool
  SCAPY_AVAILABLE :: bool
  nmap_hosts :: "observation list"
  scapy_answers :: "observation list"
  ping_hosts :: "observation list"

definition scan_with_nmap :: "scan_env \<Rightarrow> observation list" where
  "scan_with_nmap e = (if \<not> NMAP_AVAILABLE e then [] else nmap_hosts e)"

definition scan_with_scapy :: "scan_env \<Rightarrow> observation list" where
  "scan_with_scapy e = (if \<not> SCAPY_AVAILABLE e then [] else scapy_answers e)"

definition scan_with_ping_sweep :: "scan_env \<Rightarrow> observation list" where
  "scan_with_ping_sweep e = ping_hosts e"

definition has_mac :: "observation \<Rightarrow> bool" where
  "has_mac d = (case mac d of None \<Rightarrow> False | Some m \<Rightarrow> m \<noteq> [])"

definition perform_network_scan :: "scan_env \<Rightarrow> observation list" where
  "perform_network_scan e =
     (let devices = (if NMAP_AVAILABLE e then scan_with_nmap e
                     else if SCAPY_AVAILABLE e then scan_with_scapy e
                     else scan_with_ping_sweep e)
      in filter has_mac devices)"

text \<open>
  One round of \<^verbatim>\<open>scan_loop\<close> in \<^verbatim>\<open>start_continuous_scanning\<close>, as far as the
  database goes (\<^verbatim>\<open>sync_with_dashboard\<close> posts to the dashboard and does not touch
  it).
\<close>

definition scan_round :: "(nat \<Rightarrow> nat) \<Rightarrow> scan_env \<Rightarrow> registry \<Rightarrow> registry" where
  "scan_round clock e db =
     (let devices = perform_network_scan e
      in if devices \<noteq> [] then save_to_local_db clock devices db else db)"

text \<open>Several reconciliations one after the other, and the row of a MAC address.\<close>

definition save_all :: "(nat \<Rightarrow> nat) \<Rightarrow> observation list list \<Rightarrow> registry \<Rightarrow> registry" where
  "save_all clock batches db = fold (save_to_local_db clock) batches db"

definition row_of :: "string \<Rightarrow> registry \<Rightarrow> device_row option" where
  "row_of m db = find (\<lambda>r. mac_address r = m) (discovered_devices db)"

subsection \<open>Notions for the invariants of the registry\<close>

text \<open>
  \<open>stamped\<close>: every \<^verbatim>\<open>last_seen\<close> was written by a statement already executed.
  \<open>kept\<close>: the row of a MAC address in the first database is still there in the second,
  with the \<^verbatim>\<open>first_seen\<close> it had and a \<^verbatim>\<open>last_seen\<close> that is the old one or was written
  by a statement executed in between.
\<close>

definition stamped :: "(nat \<Rightarrow> nat) \<Rightarrow> registry \<Rightarrow> bool" where
  "stamped clock db =
     list_all (\<lambda>r. list_ex (\<lambda>k. last_seen r = clock k) [0..<executed db])
       (discovered_devices db)"

definition kept :: "(nat \<Rightarrow> nat) \<Rightarrow> string \<Rightarrow> registry \<Rightarrow> registry \<Rightarrow> bool" where
  "kept clock m db db' =
     (executed db \<le> executed db' \<and>
      (case row_of m db of
         None \<Rightarrow> True
       | Some r \<Rightarrow>
           (case row_of m db' of
              None \<Rightarrow> False
            | Some r' \<Rightarrow>
                first_seen r' = first_seen r \<and>
                (last_seen r' = last_seen r \<or>
                 list_ex (\<lambda>k. last_seen r' = clock k) [executed db..<executed db']))))"

subsection \<open>Concrete scans\<close>

definition printer_seen :: "string \<Rightarrow> observation" where
  "printer_seen addr = \<lparr>ip = addr, mac = Some ''AA:BB:CC:00:11:22'',
     hostname = Some ''printer-finance'', vendor = None, os = None,
     ports = [''631/tcp (ipp)'']\<rparr>"

definition nameless_host :: observation where
  "nameless_host = \<lparr>ip = ''192.168.1.77'', mac = None, hostname = None, vendor = None,
     os = None, ports = []\<rparr>"

definition empty_network :: scan_env where
  "empty_network = \<lparr>NMAP_AVAILABLE = True, SCAPY_AVAILABLE = True, nmap_hosts = [nameless_host],
     scapy_answers = [printer_seen ''192.168.1.50''], ping_hosts = []\<rparr>"

definition scapy_network :: scan_env where
  "scapy_network = \<lparr>NMAP_AVAILABLE = False, SCAPY_AVAILABLE = True, nmap_hosts = [],
     scapy_answers = [printer_seen ''192.168.1.50'', nameless_host], ping_hosts = []\<rparr>"

definition seconds :: "nat \<Rightarrow> nat" where
  "seconds n = 1000 + 30 * n"

text \<open>A clock that is set back by 100 seconds after the second statement.\<close>

definition set_back :: "nat \<Rightarrow> nat" where
  "set_back n = (if n < 2 then 1000 else 900)"

section \<open>Properties of the global blocking manager\<close>

lemma clean_url_with_slash: "clean_domain_add ''HTTP://WWW.Example.com/'' = ''example.com/''"
  by code_simp

lemma clean_url_no_slash: "clean_domain_add ''HTTP://WWW.Example.com'' = ''example.com''"
  by code_simp

lemma clean_plain: "clean_domain_add ''example.com'' = ''example.com''"
  by code_simp

lemma clean_padded: "clean_domain_add ''  WWW.Example.COM '' = ''example.com''"
  by code_simp

lemma clean_remove_plain: "clean_domain_remove ''example.com'' = ''example.com''"
  by code_simp

lemma add_leaves_key:
  "list_ex (\<lambda>x. domain x = clean_domain_add d)
     (blocked_domains (fst (snd (add_blocked_domain e d r a m))))"
  by (auto simp: add_blocked_domain_def Let_def save_blocked_domains_def list_ex_iff
      split: prod.splits bool.splits)

text \<open>
  C1, as stated: after \<^verbatim>\<open>add("HTTP://WWW.Example.com/")\<close> on an empty list the key is
  \<^verbatim>\<open>example.com/\<close> (the trailing slash is kept), so \<^verbatim>\<open>add("example.com")\<close> is not
  rejected: it succeeds and the list holds two entries.
\<close>

theorem add_url_with_slash_then_plain_succeeds:
  "map domain (blocked_domains (fst (snd
       (add_blocked_domain quiet_env ''HTTP://WWW.Example.com/'' ''r'' ''admin'' empty_manager))))
     = [''example.com/'']
   \<and> add_blocked_domain quiet_env ''example.com'' ''r'' ''admin''
       (fst (snd (add_blocked_domain quiet_env ''HTTP://WWW.Example.com/'' ''r'' ''admin''
          empty_manager)))
     \<noteq> ((False, ''Domain example.com is already blocked''),
         fst (snd (add_blocked_domain quiet_env ''HTTP://WWW.Example.com/'' ''r'' ''admin''
          empty_manager)), [])
   \<and> fst (add_blocked_domain quiet_env ''example.com'' ''r'' ''admin''
       (fst (snd (add_blocked_domain quiet_env ''HTTP://WWW.Example.com/'' ''r'' ''admin''
          empty_manager))))
     = (True, ''Domain example.com blocked successfully on 0 devices'')"
  by code_simp

text \<open>
  C1, amended: without the trailing slash, \<^verbatim>\<open>add("HTTP://WWW.Example.com")\<close> followed by
  \<^verbatim>\<open>add("example.com")\<close> makes the second call fail with the already-blocked message,
  in every world, from every block list and whatever the first call returned.
\<close>

theorem add_url_then_plain_already_blocked:
  "add_blocked_domain e2 ''example.com'' r2 a2
       (fst (snd (add_blocked_domain e1 ''HTTP://WWW.Example.com'' r1 a1 m)))
     = ((False, ''Domain example.com is already blocked''),
        fst (snd (add_blocked_domain e1 ''HTTP://WWW.Example.com'' r1 a1 m)), [])"
  using add_leaves_key[of "''HTTP://WWW.Example.com''" e1 r1 a1 m]
  by (simp add: add_blocked_domain_def[of e2] clean_plain clean_url_no_slash)

theorem add_url_then_plain_already_blocked_witness:
  "fst (add_blocked_domain quiet_env ''example.com'' ''r'' ''admin''
       (fst (snd (add_blocked_domain quiet_env ''HTTP://WWW.Example.com'' ''r'' ''admin''
          empty_manager))))
     = (False, ''Domain example.com is already blocked'')"
  using add_url_then_plain_already_blocked[of quiet_env "''r''" "''admin''" quiet_env "''r''" "''admin''" empty_manager]
  by simp

text \<open>
  C2, at the failing input \<^verbatim>\<open>www.example.com\<close>: the add on the empty list succeeds and
  stores the key \<^verbatim>\<open>example.com\<close>; the remove with the same string looks for
  \<^verbatim>\<open>www.example.com\<close>, reports not found and leaves the entry in the list.
\<close>

theorem add_then_remove_same_input_not_found:
  "fst (add_blocked_domain quiet_env ''www.example.com'' ''r'' ''admin'' empty_manager)
     = (True, ''Domain example.com blocked successfully on 0 devices'')
   \<and> fst (remove_blocked_domain quiet_env ''www.example.com'' ''admin''
        (fst (snd (add_blocked_domain quiet_env ''www.example.com'' ''r'' ''admin''
           empty_manager))))
     = (False, ''Domain www.example.com not found in block list'')
   \<and> map domain (blocked_domains (fst (snd
        (remove_blocked_domain quiet_env ''www.example.com'' ''admin''
          (fst (snd (add_blocked_domain quiet_env ''www.example.com'' ''r'' ''admin''
             empty_manager)))))))
     = [''example.com'']"
  by code_simp

text \<open>
  C3: when the normalised input is the key of an entry of the list,
  \<^verbatim>\<open>add_blocked_domain\<close> fails with the already-blocked message, and the manager (the
  list in memory and the stored list) is the one before the call.
\<close>

theorem add_existing_domain_rejected:
  "list_ex (\<lambda>x. domain x = clean_domain_add d) (blocked_domains m) \<Longrightarrow>
   add_blocked_domain e d r a m
     = ((False, ''Domain '' @ clean_domain_add d @ '' is already blocked''), m, [])"
  by (simp add: add_blocked_domain_def)

theorem add_existing_domain_rejected_witness:
  "list_ex (\<lambda>x. domain x = clean_domain_add ''  WWW.Example.COM '') (blocked_domains one_entry)
   \<and> add_blocked_domain quiet_env ''  WWW.Example.COM '' ''r'' ''admin'' one_entry
     = ((False, ''Domain example.com is already blocked''), one_entry, [])
   \<and> length (stored_domains one_entry) = 1"
proof -
  have h: "list_ex (\<lambda>x. domain x = clean_domain_add ''  WWW.Example.COM '')
      (blocked_domains one_entry)"
    by (simp add: clean_padded one_entry_def entry_of_def)
  show ?thesis
    using h add_existing_domain_rejected[OF h, of quiet_env "''r''" "''admin''"]
    by (simp add: clean_padded one_entry_def)
qed

lemma reapply_loop_spec:
  "reapply_loop world es k t f c =
     (let ps = enumerate k (filter (\<lambda>x. status x = ''active'') es)
      in (t + sum_list (map (call_count world) (filter (call_ok world) ps)),
          f @ map (domain \<circ> snd) (filter (\<lambda>p. \<not> call_ok world p) ps),
          c @ map (call_events world) ps))"
proof (induction es arbitrary: k t f c)
  case Nil
  show ?case by simp
next
  case (Cons x xs)
  show ?case
  proof (cases "status x = ''active''")
    case False
    then show ?thesis using Cons.IH[of k t f c] by simp
  next
    case True
    obtain b n tr where A: "apply_domain_block (world k) (domain x) = ((b, n), tr)"
      by (metis surj_pair)
    show ?thesis
    proof (cases b)
      case True
      with A \<open>status x = ''active''\<close> show ?thesis
        using Cons.IH[of "k + 1" "t + n" f "c @ [(domain x, tr)]"]
        by (simp add: Let_def call_ok_def call_count_def call_events_def)
    next
      case False
      with A \<open>status x = ''active''\<close> show ?thesis
        using Cons.IH[of "k + 1" t "f @ [domain x]" "c @ [(domain x, tr)]"]
        by (simp add: Let_def call_ok_def call_count_def call_events_def)
    qed
  qed
qed

text \<open>
  C6: \<^verbatim>\<open>reapply_all_rules\<close> calls \<^verbatim>\<open>apply_domain_block\<close> once for every active
  entry, in list order, whatever the earlier calls returned (the log of calls is the list
  of all active entries). The summary is a failure exactly when some call failed; it then
  names every domain whose call failed, and in both cases it counts the rules of the
  calls that succeeded.
\<close>

theorem reapply_all_rules_covers_active:
  "reapply_all_rules world m =
     (let ps = active_calls m;
          total = sum_list (map (call_count world) (filter (call_ok world) ps));
          failed = map (domain \<circ> snd) (filter (\<lambda>p. \<not> call_ok world p) ps)
      in ((failed = [],
           if failed = []
           then ''Successfully applied '' @ str_nat total @ '' blocking rules''
           else ''Applied '' @ str_nat total @ '' rules, failed: '' @ py_join '', '' failed),
          map (call_events world) ps))"
  by (simp add: reapply_all_rules_def reapply_loop_spec active_calls_def Let_def
      del: str_nat.simps)

theorem reapply_all_rules_covers_active_witness:
  "fst (reapply_all_rules (\<lambda>k. picky_router_env) four_entries)
     = (False, ''Applied 2 rules, failed: bad.example'')
   \<and> map fst (snd (reapply_all_rules (\<lambda>k. picky_router_env) four_entries))
     = [''a.example'', ''bad.example'', ''c.example'']"
proof -
  have "reapply_all_rules (\<lambda>k. picky_router_env) four_entries =
     (let ps = active_calls four_entries;
          total = sum_list (map (call_count (\<lambda>k. picky_router_env))
                     (filter (call_ok (\<lambda>k. picky_router_env)) ps));
          failed = map (domain \<circ> snd)
                     (filter (\<lambda>p. \<not> call_ok (\<lambda>k. picky_router_env) p) ps)
      in ((failed = [],
           if failed = []
           then ''Successfully applied '' @ str_nat total @ '' blocking rules''
           else ''Applied '' @ str_nat total @ '' rules, failed: '' @ py_join '', '' failed),
          map (call_events (\<lambda>k. picky_router_env)) ps))"
    by (rule reapply_all_rules_covers_active)
  moreover have
    "fst (let ps = active_calls four_entries;
          total = sum_list (map (call_count (\<lambda>k. picky_router_env))
                     (filter (call_ok (\<lambda>k. picky_router_env)) ps));
          failed = map (domain \<circ> snd)
                     (filter (\<lambda>p. \<not> call_ok (\<lambda>k. picky_router_env) p) ps)
      in ((failed = [],
           if failed = []
           then ''Successfully applied '' @ str_nat total @ '' blocking rules''
           else ''Applied '' @ str_nat total @ '' rules, failed: '' @ py_join '', '' failed),
          map (call_events (\<lambda>k. picky_router_env)) ps))
      = (False, ''Applied 2 rules, failed: bad.example'')"
    by code_simp
  moreover have
    "map fst (snd (let ps = active_calls four_entries;
          total = sum_list (map (call_count (\<lambda>k. picky_router_env))
                     (filter (call_ok (\<lambda>k. picky_router_env)) ps));
          failed = map (domain \<circ> snd)
                     (filter (\<lambda>p. \<not> call_ok (\<lambda>k. picky_router_env) p) ps)
      in ((failed = [],
           if failed = []
           then ''Successfully applied '' @ str_nat total @ '' blocking rules''
           else ''Applied '' @ str_nat total @ '' rules, failed: '' @ py_join '', '' failed),
          map (call_events (\<lambda>k. picky_router_env)) ps)))
      = [''a.example'', ''bad.example'', ''c.example'']"
    by code_simp
  ultimately show ?thesis by simp
qed

text \<open>
  C7, as stated: with a profile in mode \<^verbatim>\<open>simulated\<close> whose stored connection test
  succeeded, \<^verbatim>\<open>apply_domain_block\<close> connects to the router and issues a command, and
  the count it returns (1) is not the number of devices (2).
\<close>

theorem simulated_mode_profile_reaches_router:
  "dict_get (tested_profile ''simulated'') ''mode'' JNull = Inr (JStr ''simulated'')
   \<and> router_file simulated_profile_env = Some (tested_profile ''simulated'')
   \<and> length (get_discovered_devices simulated_profile_env) = 2
   \<and> apply_domain_block simulated_profile_env ''example.com''
     = ((True, 1),
        [SshConnect (JStr ''192.168.1.1'') (JStr ''admin'') (JStr ''secret'') (JNum 22),
         SshExec (block_command ''192.168.1.50'' ''example.com''), SshClose])
   \<and> snd (remove_domain_block simulated_profile_env ''example.com'') \<noteq> []"
  by code_simp

text \<open>
  C7, amended: whenever \<^verbatim>\<open>load_router_config\<close> yields nothing (the profile file is
  absent or unreadable, or it has no truthy \<^verbatim>\<open>connection_status.success\<close>),
  \<^verbatim>\<open>apply_domain_block\<close> and \<^verbatim>\<open>remove_domain_block\<close> issue nothing to the router
  and return success with the number of devices the registry returned. The mode of the
  profile is not read.
\<close>

theorem no_tested_profile_no_router_call:
  "load_router_config e = None \<Longrightarrow>
   apply_domain_block e d = ((True, length (get_discovered_devices e)), []) \<and>
   remove_domain_block e d = ((True, length (get_discovered_devices e)), [])"
  by (simp add: apply_domain_block_def remove_domain_block_def)

theorem no_tested_profile_no_router_call_witness:
  "load_router_config (unreachable_router_env\<lparr>router_file := None\<rparr>) = None
   \<and> apply_domain_block (unreachable_router_env\<lparr>router_file := None\<rparr>) ''example.com''
     = ((True, 2), [])
   \<and> remove_domain_block (unreachable_router_env\<lparr>router_file := None\<rparr>) ''example.com''
     = ((True, 2), [])"
proof -
  have h: "load_router_config (unreachable_router_env\<lparr>router_file := None\<rparr>) = None"
    by (simp add: load_router_config_def)
  have n: "length (get_discovered_devices (unreachable_router_env\<lparr>router_file := None\<rparr>)) = 2"
    by (simp add: get_discovered_devices_def unreachable_router_env_def two_devices_def)
  show ?thesis
    using h n no_tested_profile_no_router_call[OF h, of "''example.com''"] by simp
qed

lemma load_router_config_absent: "router_file e = None \<Longrightarrow> load_router_config e = None"
  by (simp add: load_router_config_def)

text \<open>
  C10: when the input is not yet in the list and saving succeeds,
  \<^verbatim>\<open>add_blocked_domain\<close> returns success and keeps the new entry, in memory and on
  disk, whatever \<^verbatim>\<open>apply_domain_block\<close> returns; when that fails the message is the
  pending one. The same holds for \<^verbatim>\<open>remove_blocked_domain\<close> when the entry is found
  and saving succeeds.
\<close>

theorem mutation_kept_when_rules_fail:
  "(\<not> list_ex (\<lambda>x. domain x = clean_domain_add d) (blocked_domains m) \<and> save_ok e \<longrightarrow>
     (case add_blocked_domain e d r a m of (res, m', tr) \<Rightarrow>
        fst res = True \<and>
        blocked_domains m' = blocked_domains m @
          [\<lparr>domain = clean_domain_add d, reason = r, created_by = a,
            created_at = now_iso e, applied_devices = [], status = ''active''\<rparr>] \<and>
        stored_domains m' = blocked_domains m' \<and>
        (\<not> fst (fst (apply_domain_block e (clean_domain_add d))) \<longrightarrow>
           snd res = ''Domain '' @ clean_domain_add d
             @ '' added to block list (rules application pending)'')))
   \<and>
   (list_ex (\<lambda>x. domain x = clean_domain_remove d) (blocked_domains m) \<and> save_ok e \<longrightarrow>
     (case remove_blocked_domain e d a m of (res, m', tr) \<Rightarrow>
        fst res = True \<and>
        blocked_domains m'
          = filter (\<lambda>x. domain x \<noteq> clean_domain_remove d) (blocked_domains m) \<and>
        stored_domains m' = blocked_domains m' \<and>
        (\<not> fst (fst (remove_domain_block e (clean_domain_remove d))) \<longrightarrow>
           snd res = ''Domain '' @ clean_domain_remove d
             @ '' removed from block list (rules removal pending)'')))"
proof (intro conjI impI)
  assume h: "\<not> list_ex (\<lambda>x. domain x = clean_domain_add d) (blocked_domains m) \<and> save_ok e"
  obtain b n tr where A: "apply_domain_block e (clean_domain_add d) = ((b, n), tr)"
    by (metis surj_pair)
  show "case add_blocked_domain e d r a m of (res, m', tr) \<Rightarrow>
        fst res = True \<and>
        blocked_domains m' = blocked_domains m @
          [\<lparr>domain = clean_domain_add d, reason = r, created_by = a,
            created_at = now_iso e, applied_devices = [], status = ''active''\<rparr>] \<and>
        stored_domains m' = blocked_domains m' \<and>
        (\<not> fst (fst (apply_domain_block e (clean_domain_add d))) \<longrightarrow>
           snd res = ''Domain '' @ clean_domain_add d
             @ '' added to block list (rules application pending)'')"
    using h A
    by (cases b)
      (simp_all add: add_blocked_domain_def Let_def save_blocked_domains_def
        del: str_nat.simps)
next
  assume h: "list_ex (\<lambda>x. domain x = clean_domain_remove d) (blocked_domains m) \<and> save_ok e"
  obtain b n tr where A: "remove_domain_block e (clean_domain_remove d) = ((b, n), tr)"
    by (metis surj_pair)
  from h obtain x where x: "x \<in> set (blocked_domains m)" "domain x = clean_domain_remove d"
    by (auto simp: list_ex_iff)
  have L: "length (filter (\<lambda>x. domain x \<noteq> clean_domain_remove d) (blocked_domains m))
      \<noteq> length (blocked_domains m)"
    using length_filter_less[of x "blocked_domains m" "\<lambda>x. domain x \<noteq> clean_domain_remove d"] x
    by simp
  show "case remove_blocked_domain e d a m of (res, m', tr) \<Rightarrow>
        fst res = True \<and>
        blocked_domains m'
          = filter (\<lambda>x. domain x \<noteq> clean_domain_remove d) (blocked_domains m) \<and>
        stored_domains m' = blocked_domains m' \<and>
        (\<not> fst (fst (remove_domain_block e (clean_domain_remove d))) \<longrightarrow>
           snd res = ''Domain '' @ clean_domain_remove d
             @ '' removed from block list (rules removal pending)'')"
    using h A L
    by (cases b)
      (simp_all add: remove_blocked_domain_def Let_def save_blocked_domains_def
        del: str_nat.simps)
qed

lemma unreachable_apply_fails:
  "apply_domain_block unreachable_router_env ''example.com''
     = ((False, 0),
        [SshConnect (JStr ''192.168.1.1'') (JStr ''admin'') (JStr ''secret'') (JNum 22)])"
  by code_simp

lemma unreachable_remove_fails:
  "remove_domain_block unreachable_router_env ''example.com''
     = ((False, 0),
        [SshConnect (JStr ''192.168.1.1'') (JStr ''admin'') (JStr ''secret'') (JNum 22)])"
  by code_simp

theorem mutation_kept_when_rules_fail_witness:
  "\<not> list_ex (\<lambda>x. domain x = clean_domain_add ''example.com'') (blocked_domains empty_manager)
   \<and> list_ex (\<lambda>x. domain x = clean_domain_remove ''example.com'') (blocked_domains one_entry)
   \<and> save_ok unreachable_router_env
   \<and> \<not> fst (fst (apply_domain_block unreachable_router_env ''example.com''))
   \<and> \<not> fst (fst (remove_domain_block unreachable_router_env ''example.com''))
   \<and> fst (add_blocked_domain unreachable_router_env ''example.com'' ''r'' ''admin''
          empty_manager)
     = (True, ''Domain example.com added to block list (rules application pending)'')
   \<and> map domain (blocked_domains (fst (snd
        (add_blocked_domain unreachable_router_env ''example.com'' ''r'' ''admin''
          empty_manager)))) = [''example.com'']
   \<and> fst (remove_blocked_domain unreachable_router_env ''example.com'' ''admin'' one_entry)
     = (True, ''Domain example.com removed from block list (rules removal pending)'')
   \<and> blocked_domains (fst (snd
        (remove_blocked_domain unreachable_router_env ''example.com'' ''admin'' one_entry)))
     = []"
proof -
  have h1: "\<not> list_ex (\<lambda>x. domain x = clean_domain_add ''example.com'')
      (blocked_domains empty_manager)"
    by (simp add: empty_manager_def)
  have h2: "list_ex (\<lambda>x. domain x = clean_domain_remove ''example.com'')
      (blocked_domains one_entry)"
    by (simp add: one_entry_def entry_of_def clean_remove_plain)
  have s: "save_ok unreachable_router_env"
    by (simp add: unreachable_router_env_def)
  note T = mutation_kept_when_rules_fail[of "''example.com''" empty_manager
      unreachable_router_env "''r''" "''admin''"]
  note U = mutation_kept_when_rules_fail[of "''example.com''" one_entry
      unreachable_router_env "''r''" "''admin''"]
  have a: "case add_blocked_domain unreachable_router_env ''example.com'' ''r''
        ''admin'' empty_manager of (res, m', tr) \<Rightarrow>
        fst res = True \<and>
        blocked_domains m' = blocked_domains empty_manager @
          [\<lparr>domain = clean_domain_add ''example.com'', reason = ''r'', created_by = ''admin'',
            created_at = now_iso unreachable_router_env, applied_devices = [],
            status = ''active''\<rparr>] \<and>
        stored_domains m' = blocked_domains m' \<and>
        (\<not> fst (fst (apply_domain_block unreachable_router_env
                (clean_domain_add ''example.com''))) \<longrightarrow>
           snd res = ''Domain '' @ clean_domain_add ''example.com''
             @ '' added to block list (rules application pending)'')"
    by (rule mp[OF conjunct1[OF T]]) (use h1 s in blast)
  have b: "case remove_blocked_domain unreachable_router_env ''example.com''
        ''admin'' one_entry of (res, m', tr) \<Rightarrow>
        fst res = True \<and>
        blocked_domains m'
          = filter (\<lambda>x. domain x \<noteq> clean_domain_remove ''example.com'')
              (blocked_domains one_entry) \<and>
        stored_domains m' = blocked_domains m' \<and>
        (\<not> fst (fst (remove_domain_block unreachable_router_env
                (clean_domain_remove ''example.com''))) \<longrightarrow>
           snd res = ''Domain '' @ clean_domain_remove ''example.com''
             @ '' removed from block list (rules removal pending)'')"
    by (rule mp[OF conjunct2[OF U]]) (use h2 s in blast)
  from a have a': "fst (add_blocked_domain unreachable_router_env ''example.com'' ''r''
        ''admin'' empty_manager)
      = (True, ''Domain example.com added to block list (rules application pending)'')
    \<and> map domain (blocked_domains (fst (snd (add_blocked_domain unreachable_router_env
         ''example.com'' ''r'' ''admin'' empty_manager)))) = [''example.com'']"
    by (auto simp: clean_plain unreachable_apply_fails empty_manager_def prod_eq_iff
        split: prod.splits)
  from b have b': "fst (remove_blocked_domain unreachable_router_env ''example.com''
        ''admin'' one_entry)
      = (True, ''Domain example.com removed from block list (rules removal pending)'')
    \<and> blocked_domains (fst (snd (remove_blocked_domain unreachable_router_env
         ''example.com'' ''admin'' one_entry))) = []"
    by (auto simp: clean_remove_plain unreachable_remove_fails one_entry_def entry_of_def
        prod_eq_iff split: prod.splits)
  show ?thesis
    using h1 h2 s a' b' by (simp add: unreachable_apply_fails unreachable_remove_fails)
qed

section \<open>Properties of the firewall manager\<close>

lemma initialize_firewall_some:
  "\<exists>fw. firewall (initialize_firewall raises self) = Some fw"
  by (simp add: initialize_firewall_def fallback_to_simulated_def)

lemma initialize_firewall_unrecognized:
  "firewall_type self \<notin> {JStr ''pfsense'', JStr ''openwrt'', JStr ''fortigate''} \<Longrightarrow>
   initialize_firewall raises self = fallback_to_simulated self"
  by (simp add: initialize_firewall_def)

lemma initialize_firewall_raising:
  "firewall_type self = JStr t \<Longrightarrow> raises t \<Longrightarrow>
   initialize_firewall raises self = fallback_to_simulated self"
  by (auto simp: initialize_firewall_def)

lemma FirewallManager_unfold:
  "FirewallManager raises cfg =
     initialize_firewall raises
       \<lparr>config = (case cfg of None \<Rightarrow> [] | Some kvs \<Rightarrow> kvs), firewall = None,
        firewall_type = config_get (case cfg of None \<Rightarrow> [] | Some kvs \<Rightarrow> kvs) ''type''
           (JStr ''simulated'')\<rparr>"
  by (simp add: FirewallManager_def Let_def)

text \<open>
  C8: after construction the manager holds an adapter, for every configuration and
  whichever constructors raise. A type other than \<^verbatim>\<open>pfsense\<close>, \<^verbatim>\<open>openwrt\<close> and
  \<^verbatim>\<open>fortigate\<close> (so also \<^verbatim>\<open>simulated\<close>, and a missing type) gives the simulated
  adapter, and so does a constructor that raises. Hence each of the four operations is
  the call of the adapter's method, never the branch for a missing adapter.
\<close>

theorem manager_always_has_adapter:
  "\<exists>fw. firewall (FirewallManager raises cfg) = Some fw
     \<and> (config_get (case cfg of None \<Rightarrow> [] | Some kvs \<Rightarrow> kvs) ''type'' (JStr ''simulated'')
          \<notin> {JStr ''pfsense'', JStr ''openwrt'', JStr ''fortigate''}
        \<longrightarrow> fw = SimulatedFirewall [] 1
            \<and> firewall_type (FirewallManager raises cfg) = JStr ''simulated'')
     \<and> (\<forall>t. config_get (case cfg of None \<Rightarrow> [] | Some kvs \<Rightarrow> kvs) ''type''
              (JStr ''simulated'') = JStr t \<and> raises t
        \<longrightarrow> fw = SimulatedFirewall [] 1
            \<and> firewall_type (FirewallManager raises cfg) = JStr ''simulated'')
     \<and> block_domain ab (FirewallManager raises cfg) device_ip d rule_name
          = ab fw device_ip d rule_name
     \<and> unblock_domain au (FirewallManager raises cfg) device_ip d rule_name
          = au fw device_ip d rule_name
     \<and> list_rules al (FirewallManager raises cfg) = al fw
     \<and> test_connection at (FirewallManager raises cfg) = at fw"
proof -
  obtain fw where fw: "firewall (FirewallManager raises cfg) = Some fw"
    using initialize_firewall_some[of raises] by (auto simp: FirewallManager_unfold)
  have sim: "config_get (case cfg of None \<Rightarrow> [] | Some kvs \<Rightarrow> kvs) ''type'' (JStr ''simulated'')
          \<notin> {JStr ''pfsense'', JStr ''openwrt'', JStr ''fortigate''}
        \<longrightarrow> fw = SimulatedFirewall [] 1
            \<and> firewall_type (FirewallManager raises cfg) = JStr ''simulated''"
  proof
    assume "config_get (case cfg of None \<Rightarrow> [] | Some kvs \<Rightarrow> kvs) ''type'' (JStr ''simulated'')
          \<notin> {JStr ''pfsense'', JStr ''openwrt'', JStr ''fortigate''}"
    then have "FirewallManager raises cfg = fallback_to_simulated
       \<lparr>config = (case cfg of None \<Rightarrow> [] | Some kvs \<Rightarrow> kvs), firewall = None,
        firewall_type = config_get (case cfg of None \<Rightarrow> [] | Some kvs \<Rightarrow> kvs) ''type''
           (JStr ''simulated'')\<rparr>"
      unfolding FirewallManager_unfold
      by (intro initialize_firewall_unrecognized) simp
    with fw show "fw = SimulatedFirewall [] 1
            \<and> firewall_type (FirewallManager raises cfg) = JStr ''simulated''"
      by (simp add: fallback_to_simulated_def)
  qed
  have exc: "\<forall>t. config_get (case cfg of None \<Rightarrow> [] | Some kvs \<Rightarrow> kvs) ''type''
              (JStr ''simulated'') = JStr t \<and> raises t
        \<longrightarrow> fw = SimulatedFirewall [] 1
            \<and> firewall_type (FirewallManager raises cfg) = JStr ''simulated''"
  proof (intro allI impI)
    fix t
    assume "config_get (case cfg of None \<Rightarrow> [] | Some kvs \<Rightarrow> kvs) ''type''
              (JStr ''simulated'') = JStr t \<and> raises t"
    then have "FirewallManager raises cfg = fallback_to_simulated
       \<lparr>config = (case cfg of None \<Rightarrow> [] | Some kvs \<Rightarrow> kvs), firewall = None,
        firewall_type = config_get (case cfg of None \<Rightarrow> [] | Some kvs \<Rightarrow> kvs) ''type''
           (JStr ''simulated'')\<rparr>"
      unfolding FirewallManager_unfold
      by (intro initialize_firewall_raising[of _ t]) simp_all
    with fw show "fw = SimulatedFirewall [] 1
            \<and> firewall_type (FirewallManager raises cfg) = JStr ''simulated''"
      by (simp add: fallback_to_simulated_def)
  qed
  have ops: "block_domain ab (FirewallManager raises cfg) device_ip d rule_name
          = ab fw device_ip d rule_name
     \<and> unblock_domain au (FirewallManager raises cfg) device_ip d rule_name
          = au fw device_ip d rule_name
     \<and> list_rules al (FirewallManager raises cfg) = al fw
     \<and> test_connection at (FirewallManager raises cfg) = at fw"
    using fw
    by (simp add: block_domain_def unblock_domain_def list_rules_def test_connection_def)
  from fw sim exc ops show ?thesis by blast
qed

theorem manager_always_has_adapter_witness:
  "firewall (FirewallManager all_raise (Some [(''type'', JStr ''pfsense'')]))
     = Some (SimulatedFirewall [] 1)
   \<and> firewall (FirewallManager none_raise (Some [(''type'', JStr ''cisco'')]))
     = Some (SimulatedFirewall [] 1)
   \<and> test_connection adapter_name
        (FirewallManager all_raise (Some [(''type'', JStr ''pfsense'')]))
     = (True, ''simulated'')
   \<and> test_connection adapter_name
        (FirewallManager none_raise (Some [(''type'', JStr ''cisco'')]))
     = (True, ''simulated'')"
proof -
  have a: "config_get (case Some [(''type'', JStr ''pfsense'')] of None \<Rightarrow> [] | Some kvs \<Rightarrow> kvs)
         ''type'' (JStr ''simulated'') = JStr ''pfsense'' \<and> all_raise ''pfsense''"
    by (simp add: config_get_def all_raise_def)
  have b: "config_get (case Some [(''type'', JStr ''cisco'')] of None \<Rightarrow> [] | Some kvs \<Rightarrow> kvs)
         ''type'' (JStr ''simulated'')
          \<notin> {JStr ''pfsense'', JStr ''openwrt'', JStr ''fortigate''}"
    by (simp add: config_get_def)
  from manager_always_has_adapter[of all_raise "Some [(''type'', JStr ''pfsense'')]"
      "\<lambda>_ _ _ _. (True, [], None)" "[]" "[]" "[]" "\<lambda>_ _ _ _. (True, [])"
      "\<lambda>_. ([] :: unit list)" adapter_name]
  obtain fw where fw:
    "firewall (FirewallManager all_raise (Some [(''type'', JStr ''pfsense'')])) = Some fw"
    "\<forall>t. config_get (case Some [(''type'', JStr ''pfsense'')] of None \<Rightarrow> [] | Some kvs \<Rightarrow> kvs)
         ''type'' (JStr ''simulated'') = JStr t \<and> all_raise t
       \<longrightarrow> fw = SimulatedFirewall [] 1
       \<and> firewall_type (FirewallManager all_raise (Some [(''type'', JStr ''pfsense'')]))
           = JStr ''simulated''"
    "test_connection adapter_name
        (FirewallManager all_raise (Some [(''type'', JStr ''pfsense'')])) = adapter_name fw"
    by blast
  from manager_always_has_adapter[of none_raise "Some [(''type'', JStr ''cisco'')]"
      "\<lambda>_ _ _ _. (True, [], None)" "[]" "[]" "[]" "\<lambda>_ _ _ _. (True, [])"
      "\<lambda>_. ([] :: unit list)" adapter_name]
  obtain fw2 where fw2:
    "firewall (FirewallManager none_raise (Some [(''type'', JStr ''cisco'')])) = Some fw2"
    "config_get (case Some [(''type'', JStr ''cisco'')] of None \<Rightarrow> [] | Some kvs \<Rightarrow> kvs)
         ''type'' (JStr ''simulated'')
          \<notin> {JStr ''pfsense'', JStr ''openwrt'', JStr ''fortigate''}
        \<longrightarrow> fw2 = SimulatedFirewall [] 1
       \<and> firewall_type (FirewallManager none_raise (Some [(''type'', JStr ''cisco'')]))
           = JStr ''simulated''"
    "test_connection adapter_name
        (FirewallManager none_raise (Some [(''type'', JStr ''cisco'')])) = adapter_name fw2"
    by blast
  from fw(2) a have "fw = SimulatedFirewall [] 1" by blast
  moreover from fw2(2) b have "fw2 = SimulatedFirewall [] 1" by blast
  ultimately show ?thesis
    using fw(1,3) fw2(1,3) by (simp add: adapter_name_def)
qed

section \<open>Properties of the router connection test\<close>

text \<open>
  C9, as stated: a probe can also fail by raising. For a host name that does not resolve
  the probe fails, and the result is the failure \<^verbatim>\<open>Connection failed: ...\<close>, not the one
  that says host:port cannot be reached.
\<close>

theorem raising_probe_not_unreachable_kind:
  "tcp_connect_ex unresolvable_host ''999.9.9.9'' 22 10 \<noteq> ProbeResult 0
   \<and> fst (test_ssh_connection unresolvable_host ''999.9.9.9'' ''admin'' ''secret'' 22 10)
     = (False, ''Connection failed: Name or service not known'',
        \<lparr>tested_at = ''2024-01-01T00:00:00'', router_ip = ''999.9.9.9'', ssh_port = 22,
         response_time = None, router_details = None\<rparr>)
   \<and> fst (snd (fst (test_ssh_connection unresolvable_host ''999.9.9.9'' ''admin'' ''secret''
        22 10)))
     \<noteq> ''Cannot reach 999.9.9.9:22 - Network unreachable''"
  by (simp add: test_ssh_connection_def Let_def unresolvable_host_def failure_message_def
      exn_of_socket_def)

text \<open>
  C9, amended: when the TCP probe does not return 0 (it returns an error code, or it
  raises), the only thing \<^verbatim>\<open>test_ssh_connection\<close> does on the network is that probe:
  no SSH login is attempted, and the result is not the authentication failure. When the
  probe returns a non-zero code, the result is the failure whose message says that
  host:port cannot be reached; when the probe raises, it is the failure of the
  \<^verbatim>\<open>except\<close> clause for that exception (connection timeout or connection failed).
\<close>

theorem unreachable_host_never_logs_in:
  "(tcp_connect_ex w host port timeout \<noteq> ProbeResult 0
      \<longrightarrow> snd (test_ssh_connection w host username password port timeout)
            = [TcpProbe host port]
          \<and> fst (snd (fst (test_ssh_connection w host username password port timeout)))
            \<noteq> ''Authentication failed - Invalid username or password'')
   \<and> (\<forall>code. tcp_connect_ex w host port timeout = ProbeResult code \<and> code \<noteq> 0
      \<longrightarrow> fst (test_ssh_connection w host username password port timeout)
            = (False,
               ''Cannot reach '' @ host @ '':'' @ str_int port @ '' - Network unreachable'',
               \<lparr>tested_at = tested_at_now w, router_ip = host, ssh_port = port,
                response_time = None, router_details = None\<rparr>))
   \<and> (\<forall>x. tcp_connect_ex w host port timeout = ProbeRaises x
      \<longrightarrow> fst (test_ssh_connection w host username password port timeout)
            = (False,
               (case x of
                  SocketTimedOut \<Rightarrow>
                    ''Connection timeout - Router not responding on port '' @ str_int port
                | SocketError msg \<Rightarrow> ''Connection failed: '' @ msg),
               \<lparr>tested_at = tested_at_now w, router_ip = host, ssh_port = port,
                response_time = None, router_details = None\<rparr>))"
proof (intro conjI impI allI)
  assume h: "tcp_connect_ex w host port timeout \<noteq> ProbeResult 0"
  show "snd (test_ssh_connection w host username password port timeout) = [TcpProbe host port]"
    using h by (simp add: test_ssh_connection_def Let_def split: probe_reply.splits)
  show "fst (snd (fst (test_ssh_connection w host username password port timeout)))
      \<noteq> ''Authentication failed - Invalid username or password''"
    using h
    by (simp add: test_ssh_connection_def Let_def failure_message_def exn_of_socket_def
        split: probe_reply.splits socket_exn.splits)
next
  fix code
  assume "tcp_connect_ex w host port timeout = ProbeResult code \<and> code \<noteq> 0"
  then show "fst (test_ssh_connection w host username password port timeout)
      = (False,
         ''Cannot reach '' @ host @ '':'' @ str_int port @ '' - Network unreachable'',
         \<lparr>tested_at = tested_at_now w, router_ip = host, ssh_port = port,
          response_time = None, router_details = None\<rparr>)"
    by (simp add: test_ssh_connection_def Let_def)
next
  fix x
  assume "tcp_connect_ex w host port timeout = ProbeRaises x"
  then show "fst (test_ssh_connection w host username password port timeout)
      = (False,
         (case x of
            SocketTimedOut \<Rightarrow>
              ''Connection timeout - Router not responding on port '' @ str_int port
          | SocketError msg \<Rightarrow> ''Connection failed: '' @ msg),
         \<lparr>tested_at = tested_at_now w, router_ip = host, ssh_port = port,
          response_time = None, router_details = None\<rparr>)"
    by (simp add: test_ssh_connection_def Let_def failure_message_def exn_of_socket_def
        split: socket_exn.splits)
qed

lemma str_int_22: "str_int 22 = ''22''"
  by code_simp

theorem unreachable_host_never_logs_in_witness:
  "tcp_connect_ex dead_host ''10.0.0.1'' 22 10 = ProbeResult 111
   \<and> test_ssh_connection dead_host ''10.0.0.1'' ''admin'' ''secret'' 22 10
     = ((False, ''Cannot reach 10.0.0.1:22 - Network unreachable'',
         \<lparr>tested_at = ''2024-01-01T00:00:00'', router_ip = ''10.0.0.1'', ssh_port = 22,
          response_time = None, router_details = None\<rparr>),
        [TcpProbe ''10.0.0.1'' 22])
   \<and> tcp_connect_ex unresolvable_host ''999.9.9.9'' 22 10
     = ProbeRaises (SocketError ''Name or service not known'')
   \<and> snd (test_ssh_connection unresolvable_host ''999.9.9.9'' ''admin'' ''secret'' 22 10)
     = [TcpProbe ''999.9.9.9'' 22]
   \<and> fst (snd (fst (test_ssh_connection unresolvable_host ''999.9.9.9'' ''admin''
        ''secret'' 22 10)))
     = ''Connection failed: Name or service not known''"
proof -
  have h: "tcp_connect_ex dead_host ''10.0.0.1'' 22 10 = ProbeResult 111"
    by (simp add: dead_host_def)
  have t: "tested_at_now dead_host = ''2024-01-01T00:00:00''"
    by (simp add: dead_host_def)
  have g: "tcp_connect_ex unresolvable_host ''999.9.9.9'' 22 10
      = ProbeRaises (SocketError ''Name or service not known'')"
    by (simp add: unresolvable_host_def)
  note T = unreachable_host_never_logs_in[of dead_host "''10.0.0.1''" 22 10
      "''admin''" "''secret''"]
  note U = unreachable_host_never_logs_in[of unresolvable_host "''999.9.9.9''" 22 10
      "''admin''" "''secret''"]
  have "snd (test_ssh_connection dead_host ''10.0.0.1'' ''admin'' ''secret'' 22 10)
      = [TcpProbe ''10.0.0.1'' 22]"
    using T h by simp
  moreover have "fst (test_ssh_connection dead_host ''10.0.0.1'' ''admin'' ''secret'' 22 10)
      = (False, ''Cannot reach 10.0.0.1:22 - Network unreachable'',
         \<lparr>tested_at = ''2024-01-01T00:00:00'', router_ip = ''10.0.0.1'', ssh_port = 22,
          response_time = None, router_details = None\<rparr>)"
    using T h t by (simp add: str_int_22)
  moreover have "snd (test_ssh_connection unresolvable_host ''999.9.9.9'' ''admin''
        ''secret'' 22 10) = [TcpProbe ''999.9.9.9'' 22]"
    using U g by simp
  moreover have "fst (snd (fst (test_ssh_connection unresolvable_host ''999.9.9.9''
        ''admin'' ''secret'' 22 10))) = ''Connection failed: Name or service not known''"
    using U g by simp
  ultimately show ?thesis
    using h g by (simp add: prod_eq_iff)
qed

section \<open>Properties of the discovery engine\<close>

lemma fold_upsert_scan_history:
  "scan_history (fold (upsert_device clock) ds db) = scan_history db"
proof (induction ds arbitrary: db)
  case Nil
  show ?case by simp
next
  case (Cons d ds)
  have "scan_history (upsert_device clock d db) = scan_history db"
    by (simp add: upsert_device_def Let_def split: option.splits)
  with Cons.IH[of "upsert_device clock d db"] show ?case by simp
qed

text \<open>
  C4, as stated: a round of the scan loop in which nmap runs and finds no host with a MAC
  address appends no row to the scan history; and the row appended after a scapy scan
  carries the method \<^verbatim>\<open>automated\<close>.
\<close>

theorem empty_scan_appends_no_scan_event:
  "NMAP_AVAILABLE empty_network
   \<and> length (scan_history (scan_round seconds empty_network init_local_db))
       \<noteq> length (scan_history init_local_db) + 1
   \<and> \<not> NMAP_AVAILABLE scapy_network \<and> SCAPY_AVAILABLE scapy_network
   \<and> map scan_method (scan_history (scan_round seconds scapy_network init_local_db))
       = [''automated'']"
  by code_simp

text \<open>
  C4, amended: a round of the scan loop whose scan yields at least one observation with
  a MAC address appends exactly one row to the scan history, which records the number of
  these observations and the method \<^verbatim>\<open>automated\<close>, whichever scan method ran; a round
  whose scan yields none leaves the database as it was.
\<close>

theorem scan_round_scan_event:
  "(perform_network_scan e \<noteq> [] \<longrightarrow>
      scan_history (scan_round clock e db)
        = scan_history db @
            [\<lparr>scan_id = length (scan_history db) + 1,
              scan_time =
                clock (executed (fold (upsert_device clock) (perform_network_scan e) db)),
              devices_found = length (perform_network_scan e), scan_duration = None,
              scan_method = ''automated''\<rparr>])
   \<and> (perform_network_scan e = [] \<longrightarrow> scan_round clock e db = db)"
  by (simp add: scan_round_def save_to_local_db_def Let_def fold_upsert_scan_history)

lemma scapy_scan_result:
  "perform_network_scan scapy_network = [printer_seen ''192.168.1.50'']"
  by code_simp

lemma empty_scan_result: "perform_network_scan empty_network = []"
  by code_simp

theorem scan_round_scan_event_witness:
  "perform_network_scan scapy_network \<noteq> []
   \<and> scan_history (scan_round seconds scapy_network init_local_db)
       = [\<lparr>scan_id = 1, scan_time = 1030, devices_found = 1, scan_duration = None,
           scan_method = ''automated''\<rparr>]
   \<and> perform_network_scan empty_network = []
   \<and> scan_round seconds empty_network init_local_db = init_local_db"
proof -
  note T = scan_round_scan_event[of scapy_network seconds init_local_db]
  note U = scan_round_scan_event[of empty_network seconds init_local_db]
  have a: "perform_network_scan scapy_network \<noteq> []"
    by (simp add: scapy_scan_result)
  have t: "seconds (executed (fold (upsert_device seconds)
        (perform_network_scan scapy_network) init_local_db)) = 1030"
    by code_simp
  have n: "length (perform_network_scan scapy_network) = 1"
    by (simp add: scapy_scan_result)
  have h: "scan_history init_local_db = []"
    by (simp add: init_local_db_def)
  from T a have "scan_history (scan_round seconds scapy_network init_local_db)
        = scan_history init_local_db @
            [\<lparr>scan_id = length (scan_history init_local_db) + 1,
              scan_time = seconds (executed (fold (upsert_device seconds)
                 (perform_network_scan scapy_network) init_local_db)),
              devices_found = length (perform_network_scan scapy_network),
              scan_duration = None, scan_method = ''automated''\<rparr>]"
    by blast
  then have "scan_history (scan_round seconds scapy_network init_local_db)
       = [\<lparr>scan_id = 1, scan_time = 1030, devices_found = 1, scan_duration = None,
           scan_method = ''automated''\<rparr>]"
    using t n h by simp
  moreover from U empty_scan_result
  have "scan_round seconds empty_network init_local_db = init_local_db"
    by blast
  ultimately show ?thesis using a empty_scan_result by simp
qed

lemma find_map_keeps_key:
  "(\<And>r. P (f r) = P r) \<Longrightarrow> find P (map f xs) = map_option f (find P xs)"
  by (induction xs) simp_all

lemma find_snoc:
  "find P (xs @ [y]) = (case find P xs of None \<Rightarrow> (if P y then Some y else None) | Some x \<Rightarrow> Some x)"
  by (induction xs) simp_all

lemma kept_refl: "kept clock m db db"
  by (simp add: kept_def split: option.splits)

lemma list_ex_upt_mono:
  "a' \<le> a \<Longrightarrow> b \<le> b' \<Longrightarrow> list_ex Q [a..<b] \<Longrightarrow> list_ex Q [a'..<b']"
  by (auto simp: list_ex_iff)

lemma kept_trans:
  assumes "kept clock m db1 db2" and "kept clock m db2 db3"
  shows "kept clock m db1 db3"
proof (cases "row_of m db1")
  case None
  with assms show ?thesis by (simp add: kept_def)
next
  case (Some r)
  with assms(1) obtain r2 where r2: "row_of m db2 = Some r2"
    "first_seen r2 = first_seen r"
    "last_seen r2 = last_seen r \<or> list_ex (\<lambda>k. last_seen r2 = clock k) [executed db1..<executed db2]"
    and e12: "executed db1 \<le> executed db2"
    by (auto simp: kept_def split: option.splits)
  with assms(2) obtain r3 where r3: "row_of m db3 = Some r3"
    "first_seen r3 = first_seen r2"
    "last_seen r3 = last_seen r2 \<or> list_ex (\<lambda>k. last_seen r3 = clock k) [executed db2..<executed db3]"
    and e23: "executed db2 \<le> executed db3"
    by (auto simp: kept_def split: option.splits)
  have "last_seen r3 = last_seen r
      \<or> list_ex (\<lambda>k. last_seen r3 = clock k) [executed db1..<executed db3]"
  proof (cases "last_seen r3 = last_seen r2")
    case True
    with r2(3) e23 show ?thesis
      using list_ex_upt_mono[of "executed db1" "executed db1" "executed db2" "executed db3"
          "\<lambda>k. last_seen r2 = clock k"]
      by auto
  next
    case False
    with r3(3) e12 show ?thesis
      using list_ex_upt_mono[of "executed db1" "executed db2" "executed db3" "executed db3"
          "\<lambda>k. last_seen r3 = clock k"]
      by auto
  qed
  with Some r2 r3 e12 e23 show ?thesis
    by (simp add: kept_def)
qed

lemma upsert_kept: "kept clock m db (upsert_device clock d db)"
proof (cases "mac d")
  case None
  then show ?thesis by (simp add: upsert_device_def kept_refl)
next
  case (Some m')
  show ?thesis
  proof (cases "m' = []")
    case True
    with Some show ?thesis by (simp add: upsert_device_def kept_refl)
  next
    case False
    show ?thesis
    proof (cases "list_ex (\<lambda>r. mac_address r = m') (discovered_devices db)")
      case True
      with Some False show ?thesis
        by (auto simp: upsert_device_def Let_def kept_def row_of_def find_map_keeps_key
            list_ex_iff split: option.splits)
    next
      case nex: False
      with Some False show ?thesis
        by (auto simp: upsert_device_def Let_def kept_def row_of_def find_snoc
            split: option.splits)
    qed
  qed
qed

lemma fold_upsert_kept: "kept clock m db (fold (upsert_device clock) ds db)"
proof (induction ds arbitrary: db)
  case Nil
  show ?case by (simp add: kept_refl)
next
  case (Cons d ds)
  show ?case
    using kept_trans[OF upsert_kept[of clock m db d] Cons.IH[of "upsert_device clock d db"]]
    by simp
qed

lemma save_kept: "kept clock m db (save_to_local_db clock ds db)"
proof -
  have "kept clock m (fold (upsert_device clock) ds db) (save_to_local_db clock ds db)"
    by (auto simp: save_to_local_db_def Let_def kept_def row_of_def split: option.splits)
  with fold_upsert_kept[of clock m db ds] show ?thesis
    by (rule kept_trans)
qed

lemma save_all_kept: "kept clock m db (save_all clock bs db)"
proof (induction bs arbitrary: db)
  case Nil
  show ?case by (simp add: save_all_def kept_refl)
next
  case (Cons b bs)
  show ?case
    using kept_trans[OF save_kept[of clock m db b] Cons.IH[of "save_to_local_db clock b db"]]
    by (simp add: save_all_def)
qed

lemma stamped_iff:
  "stamped clock db \<longleftrightarrow>
     (\<forall>r \<in> set (discovered_devices db). \<exists>k. k < executed db \<and> last_seen r = clock k)"
  by (simp add: stamped_def list_all_iff list_ex_iff Bex_def)

lemma stamped_later:
  assumes "\<forall>r \<in> set rows. \<exists>k. k < n \<and> last_seen r = clock k"
  shows "\<forall>r \<in> set rows. \<exists>k. k < Suc n \<and> last_seen r = clock k"
  using assms less_SucI by blast

lemma upsert_stamped:
  assumes "stamped clock db"
  shows "stamped clock (upsert_device clock d db)"
proof (cases "mac d")
  case None
  with assms show ?thesis by (simp add: upsert_device_def)
next
  case (Some m')
  from assms have old: "\<forall>r \<in> set (discovered_devices db).
      \<exists>k. k < Suc (executed db) \<and> last_seen r = clock k"
    by (intro stamped_later) (simp add: stamped_iff)
  show ?thesis
  proof (cases "m' = []")
    case True
    with Some assms show ?thesis by (simp add: upsert_device_def)
  next
    case False
    show ?thesis
    proof (cases "list_ex (\<lambda>r. mac_address r = m') (discovered_devices db)")
      case True
      with Some False old show ?thesis
        by (auto simp: upsert_device_def Let_def stamped_iff)
    next
      case nex: False
      with Some False old show ?thesis
        by (auto simp: upsert_device_def Let_def stamped_iff)
    qed
  qed
qed

lemma fold_upsert_stamped:
  "stamped clock db \<Longrightarrow> stamped clock (fold (upsert_device clock) ds db)"
  by (induction ds arbitrary: db) (simp_all add: upsert_stamped)

lemma save_stamped:
  assumes "stamped clock db"
  shows "stamped clock (save_to_local_db clock ds db)"
proof -
  from fold_upsert_stamped[OF assms, of ds]
  have "\<forall>r \<in> set (discovered_devices (fold (upsert_device clock) ds db)).
      \<exists>k. k < Suc (executed (fold (upsert_device clock) ds db)) \<and> last_seen r = clock k"
    by (intro stamped_later) (simp add: stamped_iff)
  then show ?thesis
    by (simp add: save_to_local_db_def Let_def stamped_iff)
qed

lemma save_all_stamped: "stamped clock db \<Longrightarrow> stamped clock (save_all clock bs db)"
  by (induction bs arbitrary: db) (simp_all add: save_all_def save_stamped)

lemma init_stamped: "stamped clock init_local_db"
  by (simp add: stamped_def init_local_db_def)

text \<open>
  C5, as stated: \<^verbatim>\<open>last_seen\<close> is the \<^verbatim>\<open>CURRENT_TIMESTAMP\<close> of the statement
  that wrote it, whatever the clock shows. When the clock is set back between two
  reconciliations of the same observation, \<^verbatim>\<open>last_seen\<close> goes from 1000 to 900.
\<close>

theorem last_seen_follows_clock_back:
  "map_option last_seen (row_of ''AA:BB:CC:00:11:22''
        (save_all set_back [[printer_seen ''192.168.1.50'']] init_local_db)) = Some 1000
   \<and> map_option last_seen (row_of ''AA:BB:CC:00:11:22''
        (save_all set_back [[printer_seen ''192.168.1.50''], [printer_seen ''192.168.1.50'']]
           init_local_db)) = Some 900"
  by code_simp

text \<open>
  C5, amended: take any sequence of reconciliations of the database created by
  \<^verbatim>\<open>init_local_db\<close>, and a MAC address that has a record after some of them. After
  any further reconciliations the record of that MAC address is still there, its
  \<^verbatim>\<open>first_seen\<close> is the same, and, when the clock of the database never goes back, its
  \<^verbatim>\<open>last_seen\<close> has not decreased.
\<close>

theorem first_seen_fixed_last_seen_grows:
  assumes "row_of m (save_all clock before init_local_db) = Some r"
  shows "\<exists>r'. row_of m (save_all clock (before @ after) init_local_db) = Some r'
           \<and> first_seen r' = first_seen r
           \<and> ((\<forall>i j. i \<le> j \<longrightarrow> clock i \<le> clock j) \<longrightarrow> last_seen r \<le> last_seen r')"
proof -
  define db where "db = save_all clock before init_local_db"
  have split: "save_all clock (before @ after) init_local_db = save_all clock after db"
    by (simp add: save_all_def db_def)
  have k: "kept clock m db (save_all clock after db)"
    by (rule save_all_kept)
  from assms have r: "row_of m db = Some r" by (simp add: db_def)
  with k obtain r' where r': "row_of m (save_all clock after db) = Some r'"
    "first_seen r' = first_seen r"
    "last_seen r' = last_seen r
      \<or> list_ex (\<lambda>k. last_seen r' = clock k) [executed db..<executed (save_all clock after db)]"
    by (auto simp: kept_def split: option.splits)
  have "stamped clock db"
    unfolding db_def by (rule save_all_stamped[OF init_stamped])
  moreover from r have "r \<in> set (discovered_devices db)"
    by (auto simp: row_of_def find_Some_iff)
  ultimately obtain k0 where k0: "k0 < executed db" "last_seen r = clock k0"
    by (auto simp: stamped_iff)
  have "(\<forall>i j. i \<le> j \<longrightarrow> clock i \<le> clock j) \<longrightarrow> last_seen r \<le> last_seen r'"
  proof
    assume mono: "\<forall>i j. i \<le> j \<longrightarrow> clock i \<le> clock j"
    from r'(3) show "last_seen r \<le> last_seen r'"
    proof
      assume "last_seen r' = last_seen r"
      then show ?thesis by simp
    next
      assume "list_ex (\<lambda>k. last_seen r' = clock k)
          [executed db..<executed (save_all clock after db)]"
      then obtain k where "executed db \<le> k" "last_seen r' = clock k"
        by (auto simp: list_ex_iff)
      with k0 mono show ?thesis
        by (metis less_imp_le_nat le_trans)
    qed
  qed
  with r' split show ?thesis by simp
qed

lemma printer_first_row:
  "row_of ''AA:BB:CC:00:11:22''
      (save_all seconds [[printer_seen ''192.168.1.50'']] init_local_db)
     = Some \<lparr>row_id = 1, mac_address = ''AA:BB:CC:00:11:22'', ip_address = ''192.168.1.50'',
          host_name = Some ''printer-finance'', vendor_name = None, device_type = ''Printer'',
          first_seen = 1000, last_seen = 1000, ports_open = ''631/tcp (ipp)'',
          os_guess = None, row_status = ''active''\<rparr>"
  by code_simp

lemma printer_later_row:
  "row_of ''AA:BB:CC:00:11:22''
      (save_all seconds [[printer_seen ''192.168.1.50''],
          [nameless_host, printer_seen ''192.168.1.51''], []] init_local_db)
     = Some \<lparr>row_id = 1, mac_address = ''AA:BB:CC:00:11:22'', ip_address = ''192.168.1.51'',
          host_name = Some ''printer-finance'', vendor_name = None, device_type = ''Printer'',
          first_seen = 1000, last_seen = 1060, ports_open = ''631/tcp (ipp)'',
          os_guess = None, row_status = ''active''\<rparr>"
  by code_simp

theorem first_seen_fixed_last_seen_grows_witness:
  "map_option first_seen (row_of ''AA:BB:CC:00:11:22''
        (save_all seconds [[printer_seen ''192.168.1.50'']] init_local_db)) = Some 1000
   \<and> (\<exists>r'. row_of ''AA:BB:CC:00:11:22''
          (save_all seconds [[printer_seen ''192.168.1.50''],
             [nameless_host, printer_seen ''192.168.1.51''], []] init_local_db) = Some r'
        \<and> first_seen r' = 1000 \<and> 1000 \<le> last_seen r' \<and> last_seen r' = 1060)"
proof -
  have mono: "\<forall>i j. i \<le> j \<longrightarrow> seconds i \<le> seconds j"
    by (simp add: seconds_def)
  from first_seen_fixed_last_seen_grows[OF printer_first_row,
      of "[[nameless_host, printer_seen ''192.168.1.51''], []]"]
  obtain r' where r': "row_of ''AA:BB:CC:00:11:22''
          (save_all seconds [[printer_seen ''192.168.1.50''],
             [nameless_host, printer_seen ''192.168.1.51''], []] init_local_db) = Some r'"
    "first_seen r' = 1000"
    "(\<forall>i j. i \<le> j \<longrightarrow> seconds i \<le> seconds j) \<longrightarrow> 1000 \<le> last_seen r'"
    by auto
  from r'(3) mono have "1000 \<le> last_seen r'" by blast
  moreover from r'(1) have "last_seen r' = 1060"
    by (auto simp: printer_later_row)
  ultimately show ?thesis
    using r'(1,2) by (simp add: printer_first_row)
qed

end
